theory Spec2Isabelle
  imports Main "HOL-Library.Char_ord" "HOL-Library.List_Lexorder"
begin

section \<open>Python and Django primitives used by \<open>sql/sql_workflow.py\<close>\<close>

text \<open>
  Strings are byte strings; comparison of two Python \<open>str\<close> values is the
  lexicographic order on their code points, which on ASCII text is the order
  of \<open>HOL-Library.List_Lexorder\<close> over \<open>HOL-Library.Char_ord\<close>.
\<close>

definition is_digit :: "char \<Rightarrow> bool" where
  "is_digit c = (CHR ''0'' \<le> c \<and> c \<le> CHR ''9'')"

definition digit_of :: "char \<Rightarrow> nat" where
  "digit_of c = of_char c - 48"

definition digit_char :: "nat \<Rightarrow> char" where
  "digit_char d = ''0123456789'' ! d"

text \<open>
  The characters that \<open>int()\<close> drops around the digits of an ASCII text:
  the space and \<open>\t \n \v \f \r\<close>. The separators 0x1C to 0x1F are not
  among them: \<open>int('\x1f7')\<close> raises \<open>ValueError\<close>.
\<close>

definition is_space :: "char \<Rightarrow> bool" where
  "is_space c = (c = CHR '' '' \<or> (CHR 0x09 \<le> c \<and> c \<le> CHR 0x0D))"

text \<open>
  The ASCII characters that \<open>\s\<close> matches in a regular expression over
  \<open>str\<close>: those of \<open>str.isspace()\<close>, which do include 0x1C to 0x1F.
\<close>

definition is_re_space :: "char \<Rightarrow> bool" where
  "is_re_space c = (is_space c \<or> (CHR 0x1C \<le> c \<and> c \<le> CHR 0x1F))"

text \<open>The text \<open>int()\<close> reads, without the white space around it.\<close>

definition py_strip :: "string \<Rightarrow> string" where
  "py_strip s = rev (dropWhile is_space (rev (dropWhile is_space s)))"

text \<open>
  \<open>int(s)\<close> on a \<open>str\<close> in base 10: surrounding white space is dropped, one
  sign is allowed, then decimal digits, where single underscores may stand
  between two digits. Anything else raises \<open>ValueError\<close> (here \<open>None\<close>).
  \<open>py_int_digits acc cs\<close> reads what follows a digit.
\<close>

fun py_int_digits :: "nat \<Rightarrow> string \<Rightarrow> nat option" where
  "py_int_digits acc [] = Some acc"
| "py_int_digits acc [c] = (if is_digit c then Some (10 * acc + digit_of c) else None)"
| "py_int_digits acc (c # d # cs) =
     (if is_digit c then py_int_digits (10 * acc + digit_of c) (d # cs)
      else if c = CHR ''_'' \<and> is_digit d then py_int_digits (10 * acc + digit_of d) cs
      else None)"

definition py_int_unsigned :: "string \<Rightarrow> nat option" where
  "py_int_unsigned s =
     (case s of [] \<Rightarrow> None
      | c # cs \<Rightarrow> if is_digit c then py_int_digits (digit_of c) cs else None)"

definition py_int :: "string \<Rightarrow> int option" where
  "py_int s =
     (case py_strip s of [] \<Rightarrow> None
      | c # cs \<Rightarrow>
          if c = CHR ''-'' then map_option (\<lambda>n. - int n) (py_int_unsigned cs)
          else if c = CHR ''+'' then map_option int (py_int_unsigned cs)
          else map_option int (py_int_unsigned (c # cs)))"

text \<open>\<open>str(n)\<close> for an integer, as an f-string renders a workflow id.\<close>

fun str_nat :: "nat \<Rightarrow> string" where
  "str_nat n = (if n < 10 then [digit_char n] else str_nat (n div 10) @ [digit_char (n mod 10)])"

declare str_nat.simps [simp del]

definition str_int :: "int \<Rightarrow> string" where
  "str_int i = (if i < 0 then CHR ''-'' # str_nat (nat (- i)) else str_nat (nat i))"

text \<open>
  \<open>s.split(",")\<close>: the pieces between the commas, empty pieces kept, so the
  result is never the empty list. \<open>split_acc cur s\<close> carries the piece being
  read, reversed.
\<close>

fun split_acc :: "string \<Rightarrow> string \<Rightarrow> string list" where
  "split_acc cur [] = [rev cur]"
| "split_acc cur (c # cs) =
     (if c = CHR '','' then rev cur # split_acc [] cs else split_acc (c # cur) cs)"

definition py_split_comma :: "string \<Rightarrow> string list" where
  "py_split_comma s = split_acc [] s"

text \<open>\<open>",".join(xs)\<close>, the inverse reading of a comma-separated list.\<close>

fun join_comma :: "string list \<Rightarrow> string" where
  "join_comma [] = []"
| "join_comma [x] = x"
| "join_comma (x # y # ys) = x @ CHR '','' # join_comma (y # ys)"

section \<open>Notification gate\<close>

text \<open>
  The three views compute the same expression, with the phase name as the only
  difference:
  \<^verbatim>\<open>"Pass" in sys_config.get("notify_phase_control").split(",")
      if sys_config.get("notify_phase_control") else True\<close>
  The configured value is \<open>None\<close> when unset; \<open>None\<close> and \<open>""\<close> are falsy.
\<close>

definition is_notified :: "string \<Rightarrow> string option \<Rightarrow> bool" where
  "is_notified phase cfg =
     (case cfg of None \<Rightarrow> True
      | Some s \<Rightarrow> if s \<noteq> [] then phase \<in> set (py_split_comma s) else True)"

text \<open>
  The specification's reading of the allow-list: \<open>phase\<close> is one of the
  elements of the comma-separated list \<open>s\<close> when \<open>s\<close> is the comma-join of
  comma-free names, one of which is \<open>phase\<close>.
\<close>

definition comma_free :: "string \<Rightarrow> bool" where
  "comma_free x = (CHR '','' \<notin> set x)"

definition listed_phase :: "string \<Rightarrow> string \<Rightarrow> bool" where
  "listed_phase phase s =
     (\<exists>xs. xs \<noteq> [] \<and> list_all comma_free xs \<and> join_comma xs = s \<and> phase \<in> set xs)"

section \<open>Dates\<close>

record datetime =
  dt_year :: nat
  dt_month :: nat
  dt_day :: nat
  dt_hour :: nat
  dt_minute :: nat
  dt_second :: nat

definition pad2 :: "nat \<Rightarrow> string" where
  "pad2 n = (if n < 10 then CHR ''0'' # str_nat n else str_nat n)"

definition pad4 :: "nat \<Rightarrow> string" where
  "pad4 n = replicate (4 - length (str_nat n)) CHR ''0'' @ str_nat n"

text \<open>
  \<open>d.strftime("%Y-%m-%d %H:%M")\<close>: a time written to the minute, each field
  zero-padded to its width (for the year, what the library does from the year
  1000 on).
\<close>

definition strftime_ymdhm :: "datetime \<Rightarrow> string" where
  "strftime_ymdhm d =
     pad4 (dt_year d) @ ''-'' @ pad2 (dt_month d) @ ''-'' @ pad2 (dt_day d) @ '' '' @
     pad2 (dt_hour d) @ '':'' @ pad2 (dt_minute d)"

text \<open>\<open>d.strftime("%Y-%m-%d %H:%M:%S")\<close>, which \<open>timing_task\<close> applies to \<open>now()\<close>.\<close>

definition strftime_ymdhms :: "datetime \<Rightarrow> string" where
  "strftime_ymdhms d = strftime_ymdhm d @ '':'' @ pad2 (dt_second d)"

text \<open>
  \<open>t\<close> is not later than \<open>n\<close>, both read to the minute; and a time whose
  fields fit the widths of \<open>%Y-%m-%d %H:%M\<close>.
\<close>

definition minute_le :: "datetime \<Rightarrow> datetime \<Rightarrow> bool" where
  "minute_le t n =
     (dt_year t < dt_year n \<or> dt_year t = dt_year n \<and>
     (dt_month t < dt_month n \<or> dt_month t = dt_month n \<and>
     (dt_day t < dt_day n \<or> dt_day t = dt_day n \<and>
     (dt_hour t < dt_hour n \<or> dt_hour t = dt_hour n \<and> dt_minute t \<le> dt_minute n))))"

definition fits_format :: "datetime \<Rightarrow> bool" where
  "fits_format d =
     (dt_year d < 10000 \<and> dt_month d < 100 \<and> dt_day d < 100 \<and> dt_hour d < 100 \<and>
      dt_minute d < 100)"

text \<open>
  \<open>datetime.strptime(s, "%Y-%m-%d %H:%M")\<close>. The library turns the format
  into the regular expression
  \<^verbatim>\<open>(\d\d\d\d)-(1[0-2]|0[1-9]|[1-9])-(3[0-1]|[1-2]\d|0[1-9]|[1-9]| [1-9])\s+(2[0-3]|[0-1]\d|\d):([0-5]\d|\d)\<close>
  matches it at the start of \<open>s\<close>, raises \<open>ValueError\<close> when there is no
  match or when the match leaves text unconverted, and raises it again when the
  fields are not a date. Each parser below lists the ways its piece can match,
  in the order the backtracking matcher tries them, with the rest of the text.
\<close>

definition one_digit :: "char \<Rightarrow> char \<Rightarrow> string \<Rightarrow> (nat \<times> string) list" where
  "one_digit lo hi s =
     (case s of x # rest \<Rightarrow> if lo \<le> x \<and> x \<le> hi then [(digit_of x, rest)] else []
      | _ \<Rightarrow> [])"

definition two_digits :: "char \<Rightarrow> char \<Rightarrow> char \<Rightarrow> char \<Rightarrow> string \<Rightarrow> (nat \<times> string) list" where
  "two_digits lo1 hi1 lo2 hi2 s =
     (case s of x # y # rest \<Rightarrow>
        if lo1 \<le> x \<and> x \<le> hi1 \<and> lo2 \<le> y \<and> y \<le> hi2
        then [(10 * digit_of x + digit_of y, rest)] else []
      | _ \<Rightarrow> [])"

definition re_Y :: "string \<Rightarrow> (nat \<times> string) list" where
  "re_Y s =
     (case s of a # b # c # d # rest \<Rightarrow>
        if is_digit a \<and> is_digit b \<and> is_digit c \<and> is_digit d
        then [(1000 * digit_of a + 100 * digit_of b + 10 * digit_of c + digit_of d, rest)]
        else []
      | _ \<Rightarrow> [])"

definition re_m :: "string \<Rightarrow> (nat \<times> string) list" where
  "re_m s =
     two_digits CHR ''1'' CHR ''1'' CHR ''0'' CHR ''2'' s @
     two_digits CHR ''0'' CHR ''0'' CHR ''1'' CHR ''9'' s @
     one_digit CHR ''1'' CHR ''9'' s"

definition re_d :: "string \<Rightarrow> (nat \<times> string) list" where
  "re_d s =
     two_digits CHR ''3'' CHR ''3'' CHR ''0'' CHR ''1'' s @
     two_digits CHR ''1'' CHR ''2'' CHR ''0'' CHR ''9'' s @
     two_digits CHR ''0'' CHR ''0'' CHR ''1'' CHR ''9'' s @
     one_digit CHR ''1'' CHR ''9'' s @
     (case s of x # rest \<Rightarrow> if x = CHR '' '' then one_digit CHR ''1'' CHR ''9'' rest else []
      | _ \<Rightarrow> [])"

definition re_H :: "string \<Rightarrow> (nat \<times> string) list" where
  "re_H s =
     two_digits CHR ''2'' CHR ''2'' CHR ''0'' CHR ''3'' s @
     two_digits CHR ''0'' CHR ''1'' CHR ''0'' CHR ''9'' s @
     one_digit CHR ''0'' CHR ''9'' s"

definition re_M :: "string \<Rightarrow> (nat \<times> string) list" where
  "re_M s =
     two_digits CHR ''0'' CHR ''5'' CHR ''0'' CHR ''9'' s @
     one_digit CHR ''0'' CHR ''9'' s"

definition re_lit :: "char \<Rightarrow> string \<Rightarrow> string list" where
  "re_lit c s = (case s of x # rest \<Rightarrow> if x = c then [rest] else [] | _ \<Rightarrow> [])"

text \<open>\<open>\s+\<close> is greedy: the longest run of white space first, then shorter ones.\<close>

definition re_spaces :: "string \<Rightarrow> string list" where
  "re_spaces s = map (\<lambda>k. drop k s) (rev [1 ..< Suc (length (takeWhile is_re_space s))])"

definition strptime_matches :: "string \<Rightarrow> (nat \<times> nat \<times> nat \<times> nat \<times> nat \<times> string) list" where
  "strptime_matches s =
     List.bind (re_Y s) (\<lambda>(Y, s1).
     List.bind (re_lit CHR ''-'' s1) (\<lambda>s2.
     List.bind (re_m s2) (\<lambda>(m, s3).
     List.bind (re_lit CHR ''-'' s3) (\<lambda>s4.
     List.bind (re_d s4) (\<lambda>(d, s5).
     List.bind (re_spaces s5) (\<lambda>s6.
     List.bind (re_H s6) (\<lambda>(H, s7).
     List.bind (re_lit CHR '':'' s7) (\<lambda>s8.
     List.bind (re_M s8) (\<lambda>(M, s9). [(Y, m, d, H, M, s9)])))))))))"

definition is_leap :: "nat \<Rightarrow> bool" where
  "is_leap y = (y mod 4 = 0 \<and> (y mod 100 \<noteq> 0 \<or> y mod 400 = 0))"

definition days_in_month :: "nat \<Rightarrow> nat \<Rightarrow> nat" where
  "days_in_month y m =
     (if m = 2 then (if is_leap y then 29 else 28)
      else if m = 4 \<or> m = 6 \<or> m = 9 \<or> m = 11 then 30 else 31)"

definition strptime_ymdhm :: "string \<Rightarrow> datetime option" where
  "strptime_ymdhm s =
     (case strptime_matches s of [] \<Rightarrow> None
      | (Y, m, d, H, M, rest) # _ \<Rightarrow>
          if rest \<noteq> [] then None
          else if Y < 1 \<or> days_in_month Y m < d then None
          else Some \<lparr>dt_year = Y, dt_month = m, dt_day = d, dt_hour = H, dt_minute = M,
                     dt_second = 0\<rparr>)"

section \<open>Data model\<close>

text \<open>
  \<open>request.user\<close>: the name, the display name and the permissions that
  \<open>user.has_perm\<close> answers for.
\<close>

record user =
  username :: string
  display :: string
  perms :: "string list"

definition has_perm :: "user \<Rightarrow> string \<Rightarrow> bool" where
  "has_perm u p = (p \<in> set (perms u))"

text \<open>\<open>request\<close>: the acting user and the form fields of \<open>request.POST\<close>.\<close>

record request =
  req_user :: user
  post :: "string \<rightharpoonup> string"

text \<open>A row of \<open>SqlWorkflow\<close>, keyed by its integer \<open>id\<close> in the table.\<close>

record sql_workflow =
  status :: string
  engineer :: string
  run_date_start :: "string option"
  run_date_end :: "string option"
  finish_time :: "datetime option"

text \<open>
  Modelled from the spec: the values of \<open>WorkflowDict.workflow_status\<close>
  (\<open>common/utils/const.py\<close> is not among the sources); the decision enum holds at
  least success, reject and abort, and a review still under way is waiting.
\<close>

datatype audit_status = audit_wait | audit_success | audit_reject | audit_abort

record audit_detail =
  audit_id :: int
  current_status :: audit_status

text \<open>
  The texts passed to \<open>Audit.add_log\<close> are fixed Chinese phrases, some with one
  value formatted in; each phrase is a constructor here.
\<close>

datatype op_desc =
    DescReviewRejected
  | DescCancelExecute
  | DescTiming
  | DescExecute
  | DescManual

datatype op_info =
    InfoReviewRemark string
  | InfoCancelReason string
  | InfoTimingAt datetime
  | InfoQueued
  | InfoManualDone

record log_entry =
  log_audit_id :: int
  operation_type :: int
  operation_type_desc :: op_desc
  operation_info :: op_info
  operator :: string
  operator_display :: string

text \<open>The audit gateway's own tables: one detail per workflow id, and the log.\<close>

record audit_store =
  details :: "int \<rightharpoonup> audit_detail"
  logs :: "log_entry list"

record schedule_entry =
  next_run :: datetime
  payload :: string

text \<open>Everything a transaction covers: the tables of the one database.\<close>

record database =
  workflows :: "int \<rightharpoonup> sql_workflow"
  audit :: audit_store
  schedules :: "string \<rightharpoonup> schedule_entry"

datatype task_func =
    ExecuteSql int user
  | NotifyForAudit int string

text \<open>
  The calls a view makes to its collaborators, in the order it makes them. They
  are what happened, not what is stored: a rollback does not erase them.
\<close>

datatype call =
    Call_audit int audit_status string string
  | Call_add_log log_entry
  | Call_add_sql_schedule string datetime string
  | Call_del_schedule string
  | Call_async_task task_func int string
  | Call_notify_for_execute int

record world =
  db :: database
  calls :: "call list"

datatype exn = ValueError | PermissionDenied | DoesNotExist | DatabaseError | ValidationError | OtherError string

text \<open>
  The messages rendered into \<open>error.html\<close>: the workflow id is empty, the
  user may not act on this workflow, the time is empty, the time is less than
  the current time, outside the executable period (\<open>execute\<close> and
  \<open>timing_task\<close> word it differently), the reason for ending is empty, and
  the caught exception itself.
\<close>

datatype errmsg =
    MsgWorkflowIdEmpty
  | MsgNotAuthorised
  | MsgTimeEmpty
  | MsgTimeBeforeNow
  | MsgNotInPeriod
  | MsgNotInPeriodTiming
  | MsgCancelReasonEmpty
  | MsgException exn

text \<open>
  What the caller gets: the redirect to the detail page of the workflow id, the
  rendered error page, or an exception that leaves the view.
\<close>

datatype response = Redirect string | ErrorPage errmsg | Raised exn

section \<open>Collaborators\<close>

text \<open>
  The helpers the views import are not among the sources; what they answer is a
  parameter of every view. The guards of \<open>sql.utils.sql_review\<close> and
  \<open>Audit.can_review\<close> read the database and answer yes or no. The audit
  gateway's decision either raises or answers with the aggregate status and
  its own tables as it left them. \<open>Audit.add_log\<close> and \<open>add_sql_schedule\<close>
  may raise. \<open>now\<close> is the wall clock, \<open>notify_phase_control\<close> the configured
  allow-list, \<open>datetime_field_ok\<close> whether the model layer accepts a text as
  a date on saving.
\<close>

record env =
  now :: datetime
  notify_phase_control :: "string option"
  can_review :: "database \<Rightarrow> user \<Rightarrow> int \<Rightarrow> bool"
  can_execute :: "database \<Rightarrow> user \<Rightarrow> int \<Rightarrow> bool"
  can_timingtask :: "database \<Rightarrow> user \<Rightarrow> int \<Rightarrow> bool"
  can_cancel :: "database \<Rightarrow> user \<Rightarrow> int \<Rightarrow> bool"
  on_correct_time_period :: "database \<Rightarrow> int \<Rightarrow> datetime option \<Rightarrow> bool"
  audit_gateway :: "database \<Rightarrow> int \<Rightarrow> audit_status \<Rightarrow> string \<Rightarrow> string \<Rightarrow> exn + (audit_status \<times> audit_store)"
  add_log_error :: "database \<Rightarrow> log_entry \<Rightarrow> exn option"
  add_schedule_error :: "database \<Rightarrow> string \<Rightarrow> exn option"
  datetime_field_ok :: "string \<Rightarrow> bool"

text \<open>\<open>int(request.POST.get("workflow_id", 0))\<close>: an absent field reads as 0.\<close>

definition int_param :: "string option \<Rightarrow> int option" where
  "int_param v = (case v of None \<Rightarrow> Some 0 | Some s \<Rightarrow> py_int s)"

text \<open>\<open>SqlWorkflow.objects.get(id=workflow_id)\<close> with an integer id.\<close>

definition objects_get :: "database \<Rightarrow> int \<Rightarrow> exn + sql_workflow" where
  "objects_get d i = (case workflows d i of None \<Rightarrow> Inl DoesNotExist | Some r \<Rightarrow> Inr r)"

text \<open>
  The same lookup with the id still a string, as \<open>timing_task\<close> passes it: the
  integer field converts it with \<open>int\<close> and raises \<open>ValueError\<close> when it
  cannot. The row comes back with its integer id.
\<close>

definition objects_get_str :: "database \<Rightarrow> string \<Rightarrow> exn + (int \<times> sql_workflow)" where
  "objects_get_str d s =
     (case py_int s of None \<Rightarrow> Inl ValueError
      | Some i \<Rightarrow> (case workflows d i of None \<Rightarrow> Inl DoesNotExist | Some r \<Rightarrow> Inr (i, r)))"

text \<open>
  \<open>SqlWorkflow(id=i, ...).save(update_fields=[...])\<close>: an UPDATE of the named
  columns; Django raises \<open>DatabaseError\<close> when no row was affected.
\<close>

definition save_update_fields :: "database \<Rightarrow> int \<Rightarrow> (sql_workflow \<Rightarrow> sql_workflow) \<Rightarrow> exn + database" where
  "save_update_fields d i upd =
     (case workflows d i of None \<Rightarrow> Inl DatabaseError
      | Some r \<Rightarrow> Inr (d\<lparr>workflows := (workflows d)(i \<mapsto> upd r)\<rparr>))"

text \<open>\<open>workflow_detail.save()\<close>: the whole object fetched earlier is written back.\<close>

definition save_object :: "int \<Rightarrow> sql_workflow \<Rightarrow> world \<Rightarrow> world" where
  "save_object i r w = w\<lparr>db := (db w)\<lparr>workflows := (workflows (db w))(i \<mapsto> r)\<rparr>\<rparr>"

text \<open>
  Modelled from the spec: \<open>Audit.detail_by_workflow_id(workflow_id,
  workflow_type["sqlreview"])\<close> (\<open>sql/utils/workflow_audit.py\<close> is not among
  the sources) gives the one audit record of the workflow, with its
  \<open>audit_id\<close> and \<open>current_status\<close>, and raises when there is none.
\<close>

definition detail_by_workflow_id :: "database \<Rightarrow> int \<Rightarrow> exn + audit_detail" where
  "detail_by_workflow_id d i =
     (case details (audit d) i of None \<Rightarrow> Inl DoesNotExist | Some a \<Rightarrow> Inr a)"

text \<open>
  \<open>Audit.audit(audit_id, decision, username, remark)\<close>: the decision is
  submitted; what the gateway does with it is the parameter \<open>audit_gateway\<close>.
\<close>

definition audit_call :: "env \<Rightarrow> int \<Rightarrow> audit_status \<Rightarrow> string \<Rightarrow> string \<Rightarrow> world \<Rightarrow> (exn + audit_status) \<times> world" where
  "audit_call e aid decision uname remark w =
     (let w1 = w\<lparr>calls := calls w @ [Call_audit aid decision uname remark]\<rparr>
      in case audit_gateway e (db w) aid decision uname remark of
           Inl x \<Rightarrow> (Inl x, w1)
         | Inr (res, store) \<Rightarrow> (Inr res, w1\<lparr>db := (db w)\<lparr>audit := store\<rparr>\<rparr>))"

text \<open>
  Modelled from the spec: \<open>Audit.add_log\<close> appends one entry to the log of the
  audit trail (unless it raises).
\<close>

definition add_log :: "env \<Rightarrow> log_entry \<Rightarrow> world \<Rightarrow> (exn + unit) \<times> world" where
  "add_log e entry w =
     (let w1 = w\<lparr>calls := calls w @ [Call_add_log entry]\<rparr>
      in case add_log_error e (db w) entry of
           Some x \<Rightarrow> (Inl x, w1)
         | None \<Rightarrow>
             (Inr (), w1\<lparr>db := (db w)\<lparr>audit := (audit (db w))\<lparr>logs := logs (audit (db w)) @ [entry]\<rparr>\<rparr>\<rparr>))"

text \<open>
  Modelled from the spec: the schedule registry. \<open>add(name, trigger_time, payload)\<close>
  registers the named task; \<open>remove(name)\<close> is idempotent, no error if absent.
\<close>

definition add_sql_schedule :: "env \<Rightarrow> string \<Rightarrow> datetime \<Rightarrow> string \<Rightarrow> world \<Rightarrow> (exn + unit) \<times> world" where
  "add_sql_schedule e name run_date workflow_id w =
     (let w1 = w\<lparr>calls := calls w @ [Call_add_sql_schedule name run_date workflow_id]\<rparr>
      in case add_schedule_error e (db w) name of
           Some x \<Rightarrow> (Inl x, w1)
         | None \<Rightarrow>
             (Inr (), w1\<lparr>db := (db w)\<lparr>schedules := (schedules (db w))
                (name \<mapsto> \<lparr>next_run = run_date, payload = workflow_id\<rparr>)\<rparr>\<rparr>))"

text \<open>
  Modelled from the spec: \<open>del_schedule(name)\<close> (\<open>sql/utils/tasks.py\<close> is not
  among the sources) removes the named task, and is no error if there is none.
\<close>

definition del_schedule :: "string \<Rightarrow> world \<Rightarrow> world" where
  "del_schedule name w =
     w\<lparr>db := (db w)\<lparr>schedules := (schedules (db w))(name := None)\<rparr>,
       calls := calls w @ [Call_del_schedule name]\<rparr>"

text \<open>\<open>async_task(func, ..., timeout=t, task_name=n)\<close>: fire and forget.\<close>

definition async_task :: "task_func \<Rightarrow> int \<Rightarrow> string \<Rightarrow> world \<Rightarrow> world" where
  "async_task f t n w = w\<lparr>calls := calls w @ [Call_async_task f t n]\<rparr>"

definition notify_for_execute :: "int \<Rightarrow> world \<Rightarrow> world" where
  "notify_for_execute i w = w\<lparr>calls := calls w @ [Call_notify_for_execute i]\<rparr>"

text \<open>
  \<open>with transaction.atomic()\<close> around a block that started in world \<open>w\<close>: when
  the block raises, the database is the one the block started from.
\<close>

definition atomic :: "world \<Rightarrow> (exn + 'a) \<times> world \<Rightarrow> (exn + 'a) \<times> world" where
  "atomic w r = (case r of (Inl x, w') \<Rightarrow> (Inl x, w'\<lparr>db := db w\<rparr>) | (Inr v, w') \<Rightarrow> (Inr v, w'))"

section \<open>The views\<close>

subsection \<open>\<open>alter_run_date\<close>\<close>

text \<open>\<open>x or None\<close> on a form field: absent and empty both become \<open>None\<close>.\<close>

definition or_None :: "string option \<Rightarrow> string option" where
  "or_None v = (case v of None \<Rightarrow> None | Some s \<Rightarrow> if s = [] then None else Some s)"

definition date_fields_ok :: "env \<Rightarrow> string option \<Rightarrow> bool" where
  "date_fields_ok e v = (case v of None \<Rightarrow> True | Some s \<Rightarrow> datetime_field_ok e s)"

text \<open>The \<open>try\<close> around the save of the two columns.\<close>

definition alter_run_date_save :: "env \<Rightarrow> request \<Rightarrow> int \<Rightarrow> world \<Rightarrow> response \<times> world" where
  "alter_run_date_save e req workflow_id w =
     (let rds = or_None (post req ''run_date_start'');
          rde = or_None (post req ''run_date_end'')
      in if \<not> (date_fields_ok e rds \<and> date_fields_ok e rde)
         then (ErrorPage (MsgException ValidationError), w)
         else (case save_update_fields (db w) workflow_id
                      (\<lambda>r. r\<lparr>run_date_start := rds, run_date_end := rde\<rparr>) of
                 Inl x \<Rightarrow> (ErrorPage (MsgException x), w)
               | Inr d \<Rightarrow> (Redirect (str_int workflow_id), w\<lparr>db := d\<rparr>)))"

definition alter_run_date :: "env \<Rightarrow> request \<Rightarrow> world \<Rightarrow> response \<times> world" where
  "alter_run_date e req w =
     (if \<not> has_perm (req_user req) ''sql.sql_review'' then (Raised PermissionDenied, w)
      else (case int_param (post req ''workflow_id'') of
              None \<Rightarrow> (Raised ValueError, w)
            | Some workflow_id \<Rightarrow>
                (if workflow_id = 0 then (ErrorPage MsgWorkflowIdEmpty, w)
                 else if \<not> can_review e (db w) (req_user req) workflow_id
                 then (ErrorPage MsgNotAuthorised, w)
                 else alter_run_date_save e req workflow_id w)))"

subsection \<open>\<open>passed\<close>\<close>

text \<open>The body of \<open>with transaction.atomic()\<close>; it yields \<open>audit_id\<close>.\<close>

definition passed_block :: "env \<Rightarrow> user \<Rightarrow> int \<Rightarrow> string \<Rightarrow> world \<Rightarrow> (exn + int) \<times> world" where
  "passed_block e u workflow_id audit_remark w =
     (case detail_by_workflow_id (db w) workflow_id of
        Inl x \<Rightarrow> (Inl x, w)
      | Inr a \<Rightarrow>
          (case audit_call e (audit_id a) audit_success (username u) audit_remark w of
             (Inl x, w1) \<Rightarrow> (Inl x, w1)
           | (Inr res, w1) \<Rightarrow>
               (if res = audit_success
                then (case save_update_fields (db w1) workflow_id
                             (\<lambda>r. r\<lparr>status := ''workflow_review_pass''\<rparr>) of
                        Inl x \<Rightarrow> (Inl x, w1)
                      | Inr d \<Rightarrow> (Inr (audit_id a), w1\<lparr>db := d\<rparr>))
                else (Inr (audit_id a), w1))))"

text \<open>The \<open>try\<close> statement: the block, its \<open>except\<close> and its \<open>else\<close>.\<close>

definition passed_try :: "env \<Rightarrow> user \<Rightarrow> int \<Rightarrow> string \<Rightarrow> world \<Rightarrow> response \<times> world" where
  "passed_try e u workflow_id audit_remark w =
     (case atomic w (passed_block e u workflow_id audit_remark w) of
        (Inl x, w') \<Rightarrow> (ErrorPage (MsgException x), w')
      | (Inr aid, w') \<Rightarrow>
          (Redirect (str_int workflow_id),
           if is_notified ''Pass'' (notify_phase_control e)
           then async_task (NotifyForAudit aid audit_remark) 60
                  (''sqlreview-pass-'' @ str_int workflow_id) w'
           else w'))"

definition passed :: "env \<Rightarrow> request \<Rightarrow> world \<Rightarrow> response \<times> world" where
  "passed e req w =
     (if \<not> has_perm (req_user req) ''sql.sql_review'' then (Raised PermissionDenied, w)
      else (case int_param (post req ''workflow_id'') of
              None \<Rightarrow> (Raised ValueError, w)
            | Some workflow_id \<Rightarrow>
                (let audit_remark = (case post req ''audit_remark'' of None \<Rightarrow> [] | Some r \<Rightarrow> r)
                 in if workflow_id = 0 then (ErrorPage MsgWorkflowIdEmpty, w)
                    else if \<not> can_review e (db w) (req_user req) workflow_id
                    then (ErrorPage MsgNotAuthorised, w)
                    else passed_try e (req_user req) workflow_id audit_remark w)))"

subsection \<open>\<open>execute\<close>\<close>

text \<open>\<open>mode == "auto"\<close>: nothing here is inside a transaction.\<close>

definition execute_auto :: "env \<Rightarrow> user \<Rightarrow> int \<Rightarrow> audit_detail \<Rightarrow> world \<Rightarrow> response \<times> world" where
  "execute_auto e u workflow_id a w =
     (case save_update_fields (db w) workflow_id (\<lambda>r. r\<lparr>status := ''workflow_queuing''\<rparr>) of
        Inl x \<Rightarrow> (Raised x, w)
      | Inr d \<Rightarrow>
          (let w1 = del_schedule (''sqlreview-timing-'' @ str_int workflow_id) (w\<lparr>db := d\<rparr>);
               w2 = async_task (ExecuteSql workflow_id u) (- 1)
                      (''sqlreview-execute-'' @ str_int workflow_id) w1
           in (case add_log e
                       \<lparr>log_audit_id = audit_id a, operation_type = 5,
                        operation_type_desc = DescExecute,
                        operation_info = InfoQueued,
                        operator = username u, operator_display = display u\<rparr> w2 of
                 (Inl x, w3) \<Rightarrow> (Raised x, w3)
               | (Inr _, w3) \<Rightarrow> (Redirect (str_int workflow_id), w3))))"

text \<open>\<open>mode == "manual"\<close>.\<close>

definition execute_manual :: "env \<Rightarrow> user \<Rightarrow> int \<Rightarrow> audit_detail \<Rightarrow> world \<Rightarrow> response \<times> world" where
  "execute_manual e u workflow_id a w =
     (case save_update_fields (db w) workflow_id
             (\<lambda>r. r\<lparr>status := ''workflow_finish'', finish_time := Some (now e)\<rparr>) of
        Inl x \<Rightarrow> (Raised x, w)
      | Inr d \<Rightarrow>
          (case add_log e
                  \<lparr>log_audit_id = audit_id a, operation_type = 6,
                   operation_type_desc = DescManual,
                   operation_info = InfoManualDone,
                   operator = username u, operator_display = display u\<rparr>
                  (w\<lparr>db := d\<rparr>) of
             (Inl x, w1) \<Rightarrow> (Raised x, w1)
           | (Inr _, w1) \<Rightarrow>
               (Redirect (str_int workflow_id),
                if is_notified ''Execute'' (notify_phase_control e)
                then notify_for_execute workflow_id w1 else w1)))"

definition execute :: "env \<Rightarrow> request \<Rightarrow> world \<Rightarrow> response \<times> world" where
  "execute e req w =
     (let u = req_user req
      in if \<not> (has_perm u ''sql.sql_execute'' \<or> has_perm u ''sql.sql_execute_for_resource_group'')
         then (Raised PermissionDenied, w)
         else (case int_param (post req ''workflow_id'') of
                 None \<Rightarrow> (Raised ValueError, w)
               | Some workflow_id \<Rightarrow>
                   (if workflow_id = 0 then (ErrorPage MsgWorkflowIdEmpty, w)
                    else if \<not> can_execute e (db w) u workflow_id
                    then (ErrorPage MsgNotAuthorised, w)
                    else if \<not> on_correct_time_period e (db w) workflow_id None
                    then (ErrorPage MsgNotInPeriod, w)
                    else (case detail_by_workflow_id (db w) workflow_id of
                            Inl x \<Rightarrow> (Raised x, w)
                          | Inr a \<Rightarrow>
                              (if post req ''mode'' = Some ''auto''
                               then execute_auto e u workflow_id a w
                               else if post req ''mode'' = Some ''manual''
                               then execute_manual e u workflow_id a w
                               else (Redirect (str_int workflow_id), w))))))"

subsection \<open>\<open>timing_task\<close>\<close>

text \<open>
  The block gets the row fetched before it and its integer id \<open>i\<close>; the name of
  the schedule and the payload are built from the id as the form sent it.
\<close>

definition timing_task_block :: "env \<Rightarrow> user \<Rightarrow> int \<Rightarrow> string \<Rightarrow> sql_workflow \<Rightarrow> datetime \<Rightarrow> world \<Rightarrow> (exn + unit) \<times> world" where
  "timing_task_block e u i workflow_id workflow_detail run_date w =
     (let w1 = save_object i (workflow_detail\<lparr>status := ''workflow_timingtask''\<rparr>) w
      in (case add_sql_schedule e (''sqlreview-timing-'' @ workflow_id) run_date workflow_id w1 of
            (Inl x, w2) \<Rightarrow> (Inl x, w2)
          | (Inr _, w2) \<Rightarrow>
              (case detail_by_workflow_id (db w2) i of
                 Inl x \<Rightarrow> (Inl x, w2)
               | Inr a \<Rightarrow>
                   add_log e
                     \<lparr>log_audit_id = audit_id a, operation_type = 4,
                      operation_type_desc = DescTiming,
                      operation_info = InfoTimingAt run_date,
                      operator = username u, operator_display = display u\<rparr> w2)))"

definition timing_task_try :: "env \<Rightarrow> user \<Rightarrow> int \<Rightarrow> string \<Rightarrow> sql_workflow \<Rightarrow> datetime \<Rightarrow> world \<Rightarrow> response \<times> world" where
  "timing_task_try e u i workflow_id workflow_detail run_date w =
     (case atomic w (timing_task_block e u i workflow_id workflow_detail run_date w) of
        (Inl x, w') \<Rightarrow> (ErrorPage (MsgException x), w')
      | (Inr _, w') \<Rightarrow> (Redirect workflow_id, w'))"

text \<open>From the lookup of the row on, with both form fields present.\<close>

definition timing_task_checked :: "env \<Rightarrow> user \<Rightarrow> string \<Rightarrow> string \<Rightarrow> world \<Rightarrow> response \<times> world" where
  "timing_task_checked e u workflow_id run_date w =
     (case objects_get_str (db w) workflow_id of
        Inl x \<Rightarrow> (Raised x, w)
      | Inr (i, workflow_detail) \<Rightarrow>
          (if \<not> can_timingtask e (db w) u i then (ErrorPage MsgNotAuthorised, w)
           else (case strptime_ymdhm run_date of
                   None \<Rightarrow> (Raised ValueError, w)
                 | Some rd \<Rightarrow>
                     (if \<not> on_correct_time_period e (db w) i (Some rd)
                      then (ErrorPage MsgNotInPeriodTiming, w)
                      else timing_task_try e u i workflow_id workflow_detail rd w))))"

definition timing_task :: "env \<Rightarrow> request \<Rightarrow> world \<Rightarrow> response \<times> world" where
  "timing_task e req w =
     (let u = req_user req
      in if \<not> (has_perm u ''sql.sql_execute'' \<or> has_perm u ''sql.sql_execute_for_resource_group'')
         then (Raised PermissionDenied, w)
         else (case post req ''run_date'' of
                 None \<Rightarrow> (ErrorPage MsgTimeEmpty, w)
               | Some run_date \<Rightarrow>
                   (case post req ''workflow_id'' of
                      None \<Rightarrow> (ErrorPage MsgTimeEmpty, w)
                    | Some workflow_id \<Rightarrow>
                        (if run_date < strftime_ymdhms (now e)
                         then (ErrorPage MsgTimeBeforeNow, w)
                         else timing_task_checked e u workflow_id run_date w))))"

subsection \<open>\<open>cancel\<close>\<close>

text \<open>
  The first statement of the block after the lookup of the audit: a log entry
  for a workflow past review, a decision for one under review.
\<close>

definition cancel_decision :: "env \<Rightarrow> user \<Rightarrow> sql_workflow \<Rightarrow> audit_detail \<Rightarrow> string \<Rightarrow> world \<Rightarrow> (exn + unit) \<times> world" where
  "cancel_decision e u workflow_detail a audit_remark w =
     (if status workflow_detail \<noteq> ''workflow_manreviewing''
      then (if username u = engineer workflow_detail
            then add_log e
                   \<lparr>log_audit_id = audit_id a, operation_type = 3,
                    operation_type_desc = DescCancelExecute,
                    operation_info = InfoCancelReason audit_remark,
                    operator = username u, operator_display = display u\<rparr> w
            else add_log e
                   \<lparr>log_audit_id = audit_id a, operation_type = 2,
                    operation_type_desc = DescReviewRejected,
                    operation_info = InfoReviewRemark audit_remark,
                    operator = username u, operator_display = display u\<rparr> w)
      else if username u = engineer workflow_detail
      then (case audit_call e (audit_id a) audit_abort (username u) audit_remark w of
              (Inl x, w1) \<Rightarrow> (Inl x, w1)
            | (Inr _, w1) \<Rightarrow> (Inr (), w1))
      else if has_perm u ''sql.sql_review''
      then (case audit_call e (audit_id a) audit_reject (username u) audit_remark w of
              (Inl x, w1) \<Rightarrow> (Inl x, w1)
            | (Inr _, w1) \<Rightarrow> (Inr (), w1))
      else (Inl PermissionDenied, w))"

definition cancel_block :: "env \<Rightarrow> user \<Rightarrow> int \<Rightarrow> sql_workflow \<Rightarrow> string \<Rightarrow> world \<Rightarrow> (exn + unit) \<times> world" where
  "cancel_block e u workflow_id workflow_detail audit_remark w =
     (case detail_by_workflow_id (db w) workflow_id of
        Inl x \<Rightarrow> (Inl x, w)
      | Inr a \<Rightarrow>
          (case cancel_decision e u workflow_detail a audit_remark w of
             (Inl x, w1) \<Rightarrow> (Inl x, w1)
           | (Inr _, w1) \<Rightarrow>
               (let w2 = (if status workflow_detail = ''workflow_timingtask''
                          then del_schedule (''sqlreview-timing-'' @ str_int workflow_id) w1
                          else w1)
                in (Inr (), save_object workflow_id
                              (workflow_detail\<lparr>status := ''workflow_abort''\<rparr>) w2))))"

text \<open>The \<open>else\<close> of the \<open>try\<close>: the notification, after the commit.\<close>

definition cancel_notify :: "env \<Rightarrow> int \<Rightarrow> string \<Rightarrow> world \<Rightarrow> response \<times> world" where
  "cancel_notify e workflow_id audit_remark w =
     (if is_notified ''Cancel'' (notify_phase_control e)
      then (case detail_by_workflow_id (db w) workflow_id of
              Inl x \<Rightarrow> (Raised x, w)
            | Inr a \<Rightarrow>
                (Redirect (str_int workflow_id),
                 if current_status a = audit_abort \<or> current_status a = audit_reject
                 then async_task (NotifyForAudit (audit_id a) audit_remark) 60
                        (''sqlreview-cancel-'' @ str_int workflow_id) w
                 else w))
      else (Redirect (str_int workflow_id), w))"

definition cancel_try :: "env \<Rightarrow> user \<Rightarrow> int \<Rightarrow> sql_workflow \<Rightarrow> string \<Rightarrow> world \<Rightarrow> response \<times> world" where
  "cancel_try e u workflow_id workflow_detail audit_remark w =
     (case atomic w (cancel_block e u workflow_id workflow_detail audit_remark w) of
        (Inl x, w') \<Rightarrow> (ErrorPage (MsgException x), w')
      | (Inr _, w') \<Rightarrow> cancel_notify e workflow_id audit_remark w')"

definition cancel :: "env \<Rightarrow> request \<Rightarrow> world \<Rightarrow> response \<times> world" where
  "cancel e req w =
     (case int_param (post req ''workflow_id'') of
        None \<Rightarrow> (Raised ValueError, w)
      | Some workflow_id \<Rightarrow>
          (if workflow_id = 0 then (ErrorPage MsgWorkflowIdEmpty, w)
           else (case objects_get (db w) workflow_id of
                   Inl x \<Rightarrow> (Raised x, w)
                 | Inr workflow_detail \<Rightarrow>
                     (case post req ''cancel_remark'' of
                        None \<Rightarrow> (ErrorPage MsgCancelReasonEmpty, w)
                      | Some audit_remark \<Rightarrow>
                          (if \<not> can_cancel e (db w) (req_user req) workflow_id
                           then (ErrorPage MsgNotAuthorised, w)
                           else cancel_try e (req_user req) workflow_id workflow_detail
                                  audit_remark w)))))"

section \<open>Reading the outcome of a call\<close>

text \<open>The decisions submitted to the audit gateway among the calls made.\<close>

fun is_audit_call :: "call \<Rightarrow> bool" where
  "is_audit_call (Call_audit _ _ _ _) = True"
| "is_audit_call _ = False"

definition status_of :: "database \<Rightarrow> int \<Rightarrow> string option" where
  "status_of d i = map_option status (workflows d i)"

text \<open>
  A \<open>workflow_id\<close> form field that is absent, zero or not a number, as
  \<open>int(request.POST.get("workflow_id", 0))\<close> reads it.
\<close>

definition bad_workflow_id :: "string option \<Rightarrow> bool" where
  "bad_workflow_id v = (int_param v = None \<or> int_param v = Some 0)"

text \<open>
  All the checks that a view makes before its \<open>try\<close> have passed, so the call
  reaches the transaction: for approve with the workflow id \<open>i\<close>; for
  schedule with the id \<open>wid\<close> as sent, the row \<open>r\<close> it names under the
  integer \<open>i\<close>, and the parsed time \<open>t\<close>; for cancel with the row \<open>r\<close> and
  the reason \<open>remark\<close>.
\<close>

definition passed_reaches_block :: "env \<Rightarrow> request \<Rightarrow> world \<Rightarrow> int \<Rightarrow> bool" where
  "passed_reaches_block e req w i =
     (has_perm (req_user req) ''sql.sql_review'' \<and>
      int_param (post req ''workflow_id'') = Some i \<and> i \<noteq> 0 \<and>
      can_review e (db w) (req_user req) i)"

definition timing_task_reaches_block :: "env \<Rightarrow> request \<Rightarrow> world \<Rightarrow> string \<Rightarrow> int \<Rightarrow> sql_workflow \<Rightarrow> datetime \<Rightarrow> bool" where
  "timing_task_reaches_block e req w wid i r t =
     ((has_perm (req_user req) ''sql.sql_execute''
         \<or> has_perm (req_user req) ''sql.sql_execute_for_resource_group'') \<and>
      post req ''workflow_id'' = Some wid \<and>
      (case post req ''run_date'' of None \<Rightarrow> False
       | Some rd \<Rightarrow> \<not> rd < strftime_ymdhms (now e) \<and> strptime_ymdhm rd = Some t) \<and>
      objects_get_str (db w) wid = Inr (i, r) \<and>
      can_timingtask e (db w) (req_user req) i \<and>
      on_correct_time_period e (db w) i (Some t))"

definition cancel_reaches_block :: "env \<Rightarrow> request \<Rightarrow> world \<Rightarrow> int \<Rightarrow> sql_workflow \<Rightarrow> string \<Rightarrow> bool" where
  "cancel_reaches_block e req w i r remark =
     (int_param (post req ''workflow_id'') = Some i \<and> i \<noteq> 0 \<and>
      workflows (db w) i = Some r \<and>
      post req ''cancel_remark'' = Some remark \<and>
      can_cancel e (db w) (req_user req) i)"

text \<open>The remark of an approve call: \<open>request.POST.get("audit_remark", "")\<close>.\<close>

definition audit_remark_of :: "request \<Rightarrow> string" where
  "audit_remark_of req = (case post req ''audit_remark'' of None \<Rightarrow> [] | Some r \<Rightarrow> r)"

section \<open>A concrete installation\<close>

text \<open>
  One workflow, number 7, submitted by \<open>bob\<close>, with its audit record 70 and a
  timing schedule; a reviewer \<open>alice\<close>, and \<open>carol\<close> who holds no permission.
\<close>

definition t_now :: datetime where
  "t_now = \<lparr>dt_year = 2024, dt_month = 1, dt_day = 1, dt_hour = 10, dt_minute = 0, dt_second = 0\<rparr>"

definition t_2023 :: datetime where
  "t_2023 = \<lparr>dt_year = 2023, dt_month = 12, dt_day = 31, dt_hour = 23, dt_minute = 59, dt_second = 0\<rparr>"

definition t_2030 :: datetime where
  "t_2030 = \<lparr>dt_year = 2030, dt_month = 1, dt_day = 1, dt_hour = 10, dt_minute = 0, dt_second = 0\<rparr>"

definition alice :: user where
  "alice = \<lparr>username = ''alice'', display = ''Alice'',
            perms = [''sql.sql_review'', ''sql.sql_execute'']\<rparr>"

definition bob :: user where
  "bob = \<lparr>username = ''bob'', display = ''Bob'', perms = [''sql.sql_execute'']\<rparr>"

definition carol :: user where
  "carol = \<lparr>username = ''carol'', display = ''Carol'', perms = []\<rparr>"

definition row7 :: "string \<Rightarrow> sql_workflow" where
  "row7 st = \<lparr>status = st, engineer = ''bob'', run_date_start = None, run_date_end = None,
              finish_time = None\<rparr>"

definition db7 :: "string \<Rightarrow> database" where
  "db7 st =
     \<lparr>workflows = [7 \<mapsto> row7 st],
      audit = \<lparr>details = [7 \<mapsto> \<lparr>audit_id = 70, current_status = audit_wait\<rparr>], logs = []\<rparr>,
      schedules = [''sqlreview-timing-7'' \<mapsto> \<lparr>next_run = t_now, payload = ''7''\<rparr>]\<rparr>"

definition world7 :: "string \<Rightarrow> world" where
  "world7 st = \<lparr>db = db7 st, calls = []\<rparr>"

definition set_status :: "int \<Rightarrow> audit_status \<Rightarrow> audit_store \<Rightarrow> audit_store" where
  "set_status aid st store =
     store\<lparr>details := (\<lambda>i. map_option
        (\<lambda>a. if audit_id a = aid then a\<lparr>current_status := st\<rparr> else a) (details store i))\<rparr>"

text \<open>
  Three gateways: one level of review, where the decision is the aggregate
  status; several levels, where an approval leaves the audit waiting; and one
  that fails.
\<close>

definition gateway_direct :: "database \<Rightarrow> int \<Rightarrow> audit_status \<Rightarrow> string \<Rightarrow> string \<Rightarrow> exn + (audit_status \<times> audit_store)" where
  "gateway_direct d aid decision uname remark = Inr (decision, set_status aid decision (audit d))"

definition gateway_waiting :: "database \<Rightarrow> int \<Rightarrow> audit_status \<Rightarrow> string \<Rightarrow> string \<Rightarrow> exn + (audit_status \<times> audit_store)" where
  "gateway_waiting d aid decision uname remark = Inr (audit_wait, audit d)"

definition gateway_down :: "database \<Rightarrow> int \<Rightarrow> audit_status \<Rightarrow> string \<Rightarrow> string \<Rightarrow> exn + (audit_status \<times> audit_store)" where
  "gateway_down d aid decision uname remark = Inl (OtherError ''gateway down'')"

definition env_of :: "(database \<Rightarrow> int \<Rightarrow> audit_status \<Rightarrow> string \<Rightarrow> string \<Rightarrow> exn + (audit_status \<times> audit_store)) \<Rightarrow> env" where
  "env_of gw =
     \<lparr>now = t_now, notify_phase_control = None,
      can_review = (\<lambda>d u i. True), can_execute = (\<lambda>d u i. True),
      can_timingtask = (\<lambda>d u i. True), can_cancel = (\<lambda>d u i. True),
      on_correct_time_period = (\<lambda>d i t. True),
      audit_gateway = gw,
      add_log_error = (\<lambda>d l. None), add_schedule_error = (\<lambda>d n. None),
      datetime_field_ok = (\<lambda>s. True)\<rparr>"

text \<open>An installation where the audit log cannot be written.\<close>

definition env_log_down :: env where
  "env_log_down = (env_of gateway_direct)\<lparr>add_log_error := (\<lambda>d l. Some (OtherError ''log down''))\<rparr>"

text \<open>An installation whose capability guards all refuse.\<close>

definition env_refusing :: env where
  "env_refusing = (env_of gateway_direct)
     \<lparr>can_review := (\<lambda>d u i. False), can_timingtask := (\<lambda>d u i. False),
      can_cancel := (\<lambda>d u i. False)\<rparr>"

definition form :: "user \<Rightarrow> (string \<times> string) list \<Rightarrow> request" where
  "form u kvs = \<lparr>req_user = u, post = map_of kvs\<rparr>"

section \<open>Evaluation lemmas\<close>

lemma py_int_7: "py_int ''7'' = Some 7"
  by (simp add: py_int_def py_strip_def is_space_def py_int_unsigned_def is_digit_def digit_of_def)

lemma str_int_7: "str_int 7 = ''7''"
  by (simp add: str_int_def str_nat.simps digit_char_def)

lemma now_text: "strftime_ymdhms t_now = ''2024-01-01 10:00:00''"
  by (simp add: strftime_ymdhms_def strftime_ymdhm_def t_now_def pad2_def pad4_def
        str_nat.simps digit_char_def)

lemma now_minute_text: "strftime_ymdhm t_now = ''2024-01-01 10:00''"
  by (simp add: strftime_ymdhm_def t_now_def pad2_def pad4_def str_nat.simps digit_char_def)

lemma text_2023: "strftime_ymdhm t_2023 = ''2023-12-31 23:59''"
  by (simp add: strftime_ymdhm_def t_2023_def pad2_def pad4_def str_nat.simps digit_char_def)

lemma times_in_order: "fits_format t_now" "fits_format t_2023" "minute_le t_2023 t_now"
  by (simp_all add: fits_format_def minute_le_def t_now_def t_2023_def)

lemma strptime_2030: "strptime_ymdhm ''2030-01-01 10:00'' = Some t_2030"
  unfolding t_2030_def by code_simp

lemma py_int_separator:
  "py_int [CHR 0x1F, CHR ''0''] = None" "py_int [CHR 0x1F, CHR ''7''] = None"
  by (simp_all add: py_int_def py_strip_def is_space_def py_int_unsigned_def is_digit_def)

lemma py_int_padded_0: "py_int '' 0 '' = Some 0"
  by (simp add: py_int_def py_strip_def is_space_def py_int_unsigned_def is_digit_def digit_of_def)

lemma py_int_abc: "py_int ''abc'' = None"
  by (simp add: py_int_def py_strip_def is_space_def py_int_unsigned_def is_digit_def)

lemma strptime_9999: "strptime_ymdhm ''9999'' = None"
  by code_simp

lemma strptime_unpadded:
  "strptime_ymdhm ''2024-1-1 9:05'' =
     Some \<lparr>dt_year = 2024, dt_month = 1, dt_day = 1, dt_hour = 9, dt_minute = 5, dt_second = 0\<rparr>"
  by code_simp

lemmas installation_defs =
  form_def env_of_def world7_def db7_def row7_def alice_def bob_def carol_def
  gateway_direct_def gateway_waiting_def gateway_down_def set_status_def env_log_down_def
  has_perm_def int_param_def py_int_7 str_int_7

lemmas call_defs =
  audit_call_def add_log_def add_sql_schedule_def del_schedule_def async_task_def
  notify_for_execute_def atomic_def detail_by_workflow_id_def save_update_fields_def
  save_object_def objects_get_def objects_get_str_def

section \<open>The notification gate\<close>

lemma split_acc_not_Nil: "split_acc cur s \<noteq> []"
  by (induction s arbitrary: cur) auto

lemma join_comma_Cons: "ys \<noteq> [] \<Longrightarrow> join_comma (x # ys) = x @ CHR '','' # join_comma ys"
  by (cases ys) auto

lemma join_split_acc: "join_comma (split_acc cur s) = rev cur @ s"
  by (induction s arbitrary: cur) (auto simp: join_comma_Cons split_acc_not_Nil)

lemma comma_free_split_acc: "comma_free cur \<Longrightarrow> list_all comma_free (split_acc cur s)"
  by (induction s arbitrary: cur) (auto simp: comma_free_def)

lemma split_acc_append: "comma_free x \<Longrightarrow> split_acc cur (x @ s) = split_acc (rev x @ cur) s"
  by (induction x arbitrary: cur) (auto simp: comma_free_def)

lemma split_acc_join:
  "xs \<noteq> [] \<Longrightarrow> list_all comma_free xs \<Longrightarrow>
     split_acc cur (join_comma xs) = (rev cur @ hd xs) # tl xs"
proof (induction xs arbitrary: cur rule: join_comma.induct)
  case 1
  then show ?case by simp
next
  case (2 x)
  then have "split_acc cur (x @ []) = split_acc (rev x @ cur) []"
    using split_acc_append [of x cur "[]"] by simp
  then show ?case by simp
next
  case (3 x y ys)
  then have cf: "comma_free x" and rest: "list_all comma_free (y # ys)"
    by simp_all
  have "split_acc cur (join_comma (x # y # ys)) =
          split_acc (rev x @ cur) (CHR '','' # join_comma (y # ys))"
    using split_acc_append [OF cf] by simp
  also have "\<dots> = (rev cur @ x) # split_acc [] (join_comma (y # ys))"
    by simp
  also have "split_acc [] (join_comma (y # ys)) = y # ys"
    using "3.IH" [of "[]"] rest by simp
  finally show ?case by simp
qed

lemma py_split_join:
  "xs \<noteq> [] \<Longrightarrow> list_all comma_free xs \<Longrightarrow> py_split_comma (join_comma xs) = xs"
  using split_acc_join [of xs "[]"] by (cases xs) (simp_all add: py_split_comma_def)

lemma listed_phase_iff: "listed_phase phase s \<longleftrightarrow> phase \<in> set (py_split_comma s)"
proof
  assume "listed_phase phase s"
  then obtain xs where "xs \<noteq> []" "list_all comma_free xs" "join_comma xs = s" "phase \<in> set xs"
    unfolding listed_phase_def by blast
  then show "phase \<in> set (py_split_comma s)"
    using py_split_join [of xs] by simp
next
  assume r: "phase \<in> set (py_split_comma s)"
  have "py_split_comma s \<noteq> []" "list_all comma_free (py_split_comma s)"
    "join_comma (py_split_comma s) = s"
    by (simp_all add: py_split_comma_def split_acc_not_Nil comma_free_split_acc comma_free_def
          join_split_acc)
  with r show "listed_phase phase s"
    unfolding listed_phase_def by blast
qed

text \<open>
  C9. The gate answers true exactly when the allow-list is unset, or empty, or
  the phase is one of its comma-separated elements. With the allow-list
  \<open>Pass,Execute\<close> the phase \<open>Cancel\<close> is not notified; with no allow-list, or
  an empty one, every phase is.
\<close>

theorem notification_gate:
  "(is_notified phase cfg \<longleftrightarrow>
      cfg = None \<or> cfg = Some [] \<or> (\<exists>s. cfg = Some s \<and> listed_phase phase s))
   \<and> \<not> is_notified ''Cancel'' (Some ''Pass,Execute'')
   \<and> is_notified phase None \<and> is_notified phase (Some [])"
  by (auto simp: is_notified_def listed_phase_iff py_split_comma_def split: option.splits)

theorem notification_gate_witness:
  "listed_phase ''Pass'' ''Pass,Execute'' \<and> \<not> listed_phase ''Cancel'' ''Pass,Execute''"
  using notification_gate [of "''Pass''" "Some ''Pass,Execute''"]
        notification_gate [of "''Cancel''" "Some ''Pass,Execute''"]
  by (simp add: is_notified_def py_split_comma_def)

section \<open>Approve\<close>

text \<open>
  C1. An approve call that passes the workflow id and review-authority guards
  and whose decision the audit gateway answers with the aggregate status
  \<open>res\<close>: when \<open>res\<close> is \<open>audit_success\<close> the row of the workflow gets the
  status \<open>workflow_review_pass\<close>, and under any other answer the table of
  workflows is as it was. So a workflow in another status ends in
  \<open>workflow_review_pass\<close> if and only if the answer is \<open>audit_success\<close>.
\<close>

theorem passed_status:
  assumes "has_perm (req_user req) ''sql.sql_review''"
    and "int_param (post req ''workflow_id'') = Some i" and "i \<noteq> 0"
    and "can_review e (db w) (req_user req) i"
    and "details (audit (db w)) i = Some a"
    and "audit_gateway e (db w) (audit_id a) audit_success (username (req_user req))
           (case post req ''audit_remark'' of None \<Rightarrow> [] | Some r \<Rightarrow> r) = Inr (res, store)"
  shows "workflows (db (snd (passed e req w))) =
           (if res = audit_success
            then (case workflows (db w) i of
                    None \<Rightarrow> workflows (db w)
                  | Some r \<Rightarrow> (workflows (db w))(i \<mapsto> r\<lparr>status := ''workflow_review_pass''\<rparr>))
            else workflows (db w))
         \<and> (status_of (db w) i \<noteq> None \<and> status_of (db w) i \<noteq> Some ''workflow_review_pass'' \<longrightarrow>
              (status_of (db (snd (passed e req w))) i = Some ''workflow_review_pass''
                 \<longleftrightarrow> res = audit_success))"
  using assms
  by (auto simp: passed_def passed_try_def passed_block_def call_defs status_of_def Let_def
           split: option.splits)

theorem passed_status_witness:
  "status_of (db (snd (passed (env_of gateway_direct) (form alice [(''workflow_id'', ''7'')])
      (world7 ''workflow_manreviewing'')))) 7 = Some ''workflow_review_pass''
   \<and> status_of (db (snd (passed (env_of gateway_waiting) (form alice [(''workflow_id'', ''7'')])
      (world7 ''workflow_manreviewing'')))) 7 = Some ''workflow_manreviewing''"
  using passed_status [where e = "env_of gateway_direct"
          and req = "form alice [(''workflow_id'', ''7'')]"
          and w = "world7 ''workflow_manreviewing''" and i = 7
          and a = "\<lparr>audit_id = 70, current_status = audit_wait\<rparr>" and res = audit_success
          and store = "set_status 70 audit_success (audit (db7 ''workflow_manreviewing''))"]
        passed_status [where e = "env_of gateway_waiting"
          and req = "form alice [(''workflow_id'', ''7'')]"
          and w = "world7 ''workflow_manreviewing''" and i = 7
          and a = "\<lparr>audit_id = 70, current_status = audit_wait\<rparr>" and res = audit_wait
          and store = "audit (db7 ''workflow_manreviewing'')"]
  by (simp add: installation_defs status_of_def)

text \<open>
  C10. An approve call whose transaction commits, that is whose block returns
  without an exception, evaluates the gate for the phase \<open>Pass\<close> and, if the
  gate permits, enqueues one asynchronous notification task, whatever the
  audit decision was: the block also returns when the decision did not reach
  success and the status was left as it was.
\<close>

theorem passed_notifies_on_commit:
  assumes "has_perm (req_user req) ''sql.sql_review''"
    and "int_param (post req ''workflow_id'') = Some i" and "i \<noteq> 0"
    and "can_review e (db w) (req_user req) i"
    and "remark = (case post req ''audit_remark'' of None \<Rightarrow> [] | Some r \<Rightarrow> r)"
    and "passed_block e (req_user req) i remark w = (Inr aid, w')"
  shows "passed e req w =
           (Redirect (str_int i),
            if is_notified ''Pass'' (notify_phase_control e)
            then w'\<lparr>calls := calls w' @
                   [Call_async_task (NotifyForAudit aid remark) 60 (''sqlreview-pass-'' @ str_int i)]\<rparr>
            else w')"
  using assms
  by (simp add: passed_def passed_try_def atomic_def async_task_def Let_def)

theorem passed_notifies_on_commit_witness:
  "passed (env_of gateway_waiting) (form alice [(''workflow_id'', ''7'')])
     (world7 ''workflow_manreviewing'') =
     (Redirect ''7'',
      \<lparr>db = db7 ''workflow_manreviewing'',
       calls = [Call_audit 70 audit_success ''alice'' [],
                Call_async_task (NotifyForAudit 70 []) 60 ''sqlreview-pass-7'']\<rparr>)"
  using passed_notifies_on_commit [where e = "env_of gateway_waiting"
          and req = "form alice [(''workflow_id'', ''7'')]"
          and w = "world7 ''workflow_manreviewing''" and i = 7 and remark = "[]" and aid = 70
          and w' = "\<lparr>db = db7 ''workflow_manreviewing'',
                      calls = [Call_audit 70 audit_success ''alice'' []]\<rparr>"]
  by (simp add: installation_defs passed_block_def call_defs is_notified_def)

section \<open>Execute, automatic mode\<close>

text \<open>
  C6. An execute call in automatic mode that passes its guards, on a workflow
  that has its row and its audit record, and whose log entry is accepted:
  the timing schedule named for the workflow id is deleted, whether or not one
  was registered, before the execution task is enqueued; exactly one task is
  enqueued; the status becomes \<open>workflow_queuing\<close>; and exactly one entry, of
  operation type 5, is appended to the audit log.
\<close>

theorem execute_auto_effects:
  assumes "has_perm (req_user req) ''sql.sql_execute''
           \<or> has_perm (req_user req) ''sql.sql_execute_for_resource_group''"
    and "int_param (post req ''workflow_id'') = Some i" and "i \<noteq> 0"
    and "can_execute e (db w) (req_user req) i"
    and "on_correct_time_period e (db w) i None"
    and "details (audit (db w)) i = Some a"
    and "workflows (db w) i = Some r"
    and "post req ''mode'' = Some ''auto''"
    and "add_log_error e = (\<lambda>d l. None)"
    and "entry = \<lparr>log_audit_id = audit_id a, operation_type = 5, operation_type_desc = DescExecute,
                  operation_info = InfoQueued, operator = username (req_user req),
                  operator_display = display (req_user req)\<rparr>"
  shows "fst (execute e req w) = Redirect (str_int i)
     \<and> calls (snd (execute e req w)) = calls w @
          [Call_del_schedule (''sqlreview-timing-'' @ str_int i),
           Call_async_task (ExecuteSql i (req_user req)) (- 1) (''sqlreview-execute-'' @ str_int i),
           Call_add_log entry]
     \<and> workflows (db (snd (execute e req w))) = (workflows (db w))(i \<mapsto> r\<lparr>status := ''workflow_queuing''\<rparr>)
     \<and> schedules (db (snd (execute e req w))) = (schedules (db w))(''sqlreview-timing-'' @ str_int i := None)
     \<and> logs (audit (db (snd (execute e req w)))) = logs (audit (db w)) @ [entry]
     \<and> details (audit (db (snd (execute e req w)))) = details (audit (db w))"
  using assms
  by (simp add: execute_def execute_auto_def call_defs Let_def)

theorem execute_auto_effects_witness:
  "fst (execute (env_of gateway_direct) (form bob [(''workflow_id'', ''7''), (''mode'', ''auto'')])
     (world7 ''workflow_review_pass'')) = Redirect ''7''
   \<and> calls (snd (execute (env_of gateway_direct) (form bob [(''workflow_id'', ''7''), (''mode'', ''auto'')])
     (world7 ''workflow_review_pass''))) =
       [Call_del_schedule ''sqlreview-timing-7'',
        Call_async_task (ExecuteSql 7 bob) (- 1) ''sqlreview-execute-7'',
        Call_add_log \<lparr>log_audit_id = 70, operation_type = 5,
                      operation_type_desc = DescExecute, operation_info = InfoQueued,
                      operator = ''bob'', operator_display = ''Bob''\<rparr>]
   \<and> status_of (db (snd (execute (env_of gateway_direct)
        (form bob [(''workflow_id'', ''7''), (''mode'', ''auto'')])
        (world7 ''workflow_review_pass'')))) 7 = Some ''workflow_queuing''
   \<and> schedules (db (snd (execute (env_of gateway_direct)
        (form bob [(''workflow_id'', ''7''), (''mode'', ''auto'')])
        (world7 ''workflow_review_pass'')))) ''sqlreview-timing-7'' = None"
  using execute_auto_effects [where e = "env_of gateway_direct"
          and req = "form bob [(''workflow_id'', ''7''), (''mode'', ''auto'')]"
          and w = "world7 ''workflow_review_pass''" and i = 7
          and a = "\<lparr>audit_id = 70, current_status = audit_wait\<rparr>"
          and r = "row7 ''workflow_review_pass''"
          and entry = "\<lparr>log_audit_id = 70, operation_type = 5,
                                operation_type_desc = DescExecute, operation_info = InfoQueued,
                                operator = ''bob'', operator_display = ''Bob''\<rparr>"]
  by (simp add: installation_defs status_of_def)

section \<open>Cancel\<close>

lemma calls_atomic: "calls (snd (atomic w r)) = calls (snd r)"
  by (cases r) (simp add: atomic_def split: sum.splits)

lemma fst_atomic: "fst (atomic w r) = fst r"
  by (cases r) (simp add: atomic_def split: sum.splits)

lemma db_atomic_Inl: "fst r = Inl x \<Longrightarrow> db (snd (atomic w r)) = db w"
  by (cases r) (simp add: atomic_def)

lemma atomic_Inr: "fst r = Inr v \<Longrightarrow> atomic w r = r"
  by (cases r) (simp add: atomic_def)

lemma audit_calls_cancel_notify:
  "filter is_audit_call (calls (snd (cancel_notify e i remark w))) = filter is_audit_call (calls w)"
  by (simp add: cancel_notify_def async_task_def detail_by_workflow_id_def split: option.splits)

lemma db_cancel_notify: "db (snd (cancel_notify e i remark w)) = db w"
  by (simp add: cancel_notify_def async_task_def detail_by_workflow_id_def split: option.splits)

lemma audit_calls_add_log:
  "filter is_audit_call (calls (snd (add_log e entry w))) = filter is_audit_call (calls w)"
  by (simp add: add_log_def Let_def split: option.splits)

lemma audit_calls_cancel_decision_past:
  "status r \<noteq> ''workflow_manreviewing'' \<Longrightarrow>
     filter is_audit_call (calls (snd (cancel_decision e u r a remark w))) =
     filter is_audit_call (calls w)"
  by (simp add: cancel_decision_def audit_calls_add_log)

lemma audit_calls_cancel_block_past:
  assumes "status r \<noteq> ''workflow_manreviewing''"
  shows "filter is_audit_call (calls (snd (cancel_block e u i r remark w))) =
         filter is_audit_call (calls w)"
proof (cases "detail_by_workflow_id (db w) i")
  case (Inl x)
  then show ?thesis by (simp add: cancel_block_def)
next
  case (Inr a)
  obtain res w1 where d: "cancel_decision e u r a remark w = (res, w1)"
    by (cases "cancel_decision e u r a remark w")
  have "filter is_audit_call (calls w1) = filter is_audit_call (calls w)"
    using audit_calls_cancel_decision_past [OF assms, of e u a remark w] d by simp
  then show ?thesis
    using Inr d
    by (cases res) (simp_all add: cancel_block_def Let_def del_schedule_def save_object_def)
qed

lemma audit_calls_cancel_try_past:
  assumes "status r \<noteq> ''workflow_manreviewing''"
  shows "filter is_audit_call (calls (snd (cancel_try e u i r remark w))) =
         filter is_audit_call (calls w)"
proof -
  obtain res w' where b: "atomic w (cancel_block e u i r remark w) = (res, w')"
    by (cases "atomic w (cancel_block e u i r remark w)")
  have "calls w' = calls (snd (cancel_block e u i r remark w))"
    using calls_atomic [of w "cancel_block e u i r remark w"] b by simp
  then have "filter is_audit_call (calls w') = filter is_audit_call (calls w)"
    using audit_calls_cancel_block_past [OF assms] by simp
  then show ?thesis
    using b by (cases res) (simp_all add: cancel_try_def audit_calls_cancel_notify)
qed

lemma add_log_ok:
  "add_log_error e = (\<lambda>d l. None) \<Longrightarrow>
     add_log e entry w =
       (Inr (), \<lparr>db = (db w)\<lparr>audit := (audit (db w))\<lparr>logs := logs (audit (db w)) @ [entry]\<rparr>\<rparr>,
                 calls = calls w @ [Call_add_log entry]\<rparr>)"
  by (simp add: add_log_def Let_def)

lemma cancel_block_past:
  assumes "status r \<noteq> ''workflow_manreviewing''"
    and "details (audit (db w)) i = Some a"
    and "add_log_error e = (\<lambda>d l. None)"
    and "entry = (if username u = engineer r
                   then \<lparr>log_audit_id = audit_id a, operation_type = 3,
                         operation_type_desc = DescCancelExecute,
                         operation_info = InfoCancelReason remark,
                         operator = username u, operator_display = display u\<rparr>
                   else \<lparr>log_audit_id = audit_id a, operation_type = 2,
                         operation_type_desc = DescReviewRejected,
                         operation_info = InfoReviewRemark remark,
                         operator = username u, operator_display = display u\<rparr>)"
  shows "cancel_block e u i r remark w =
     (Inr (),
      \<lparr>db = \<lparr>workflows = (workflows (db w))(i \<mapsto> r\<lparr>status := ''workflow_abort''\<rparr>),
              audit = (audit (db w))\<lparr>logs := logs (audit (db w)) @ [entry]\<rparr>,
              schedules = (if status r = ''workflow_timingtask''
                           then (schedules (db w))(''sqlreview-timing-'' @ str_int i := None)
                           else schedules (db w))\<rparr>,
       calls = calls w @ [Call_add_log entry] @
               (if status r = ''workflow_timingtask''
                then [Call_del_schedule (''sqlreview-timing-'' @ str_int i)] else [])\<rparr>)"
  using assms
  by (simp add: cancel_block_def cancel_decision_def detail_by_workflow_id_def add_log_ok
        del_schedule_def save_object_def Let_def)

text \<open>
  Cancel of a workflow under review (\<open>workflow_manreviewing\<close>), with a reason
  supplied and cancel authority held. By the submitter: exactly one decision
  is submitted to the audit gateway, an abort, and the workflow ends in
  \<open>workflow_abort\<close>. By another user who holds the review permission: exactly
  one decision, a reject, and the same final status. By a user who is neither:
  the block raises \<open>PermissionDenied\<close> and nothing at all has changed; but the
  \<open>except\<close> clause of the view catches what the block raised, and the caller
  gets the error page.
\<close>

lemma cancel_under_review:
  assumes "int_param (post req ''workflow_id'') = Some i" and "i \<noteq> 0"
    and "workflows (db w) i = Some r"
    and "status r = ''workflow_manreviewing''"
    and "post req ''cancel_remark'' = Some remark"
    and "can_cancel e (db w) (req_user req) i"
    and "details (audit (db w)) i = Some a"
    and "u = req_user req"
  shows "(username u = engineer r \<and>
            audit_gateway e (db w) (audit_id a) audit_abort (username u) remark = Inr (res, store) \<longrightarrow>
            filter is_audit_call (calls (snd (cancel e req w))) =
              filter is_audit_call (calls w) @ [Call_audit (audit_id a) audit_abort (username u) remark]
            \<and> workflows (db (snd (cancel e req w))) = (workflows (db w))(i \<mapsto> r\<lparr>status := ''workflow_abort''\<rparr>))
       \<and> (username u \<noteq> engineer r \<and> has_perm u ''sql.sql_review'' \<and>
            audit_gateway e (db w) (audit_id a) audit_reject (username u) remark = Inr (res, store) \<longrightarrow>
            filter is_audit_call (calls (snd (cancel e req w))) =
              filter is_audit_call (calls w) @ [Call_audit (audit_id a) audit_reject (username u) remark]
            \<and> workflows (db (snd (cancel e req w))) = (workflows (db w))(i \<mapsto> r\<lparr>status := ''workflow_abort''\<rparr>))
       \<and> (username u \<noteq> engineer r \<and> \<not> has_perm u ''sql.sql_review'' \<longrightarrow>
            fst (cancel_block e u i r remark w) = Inl PermissionDenied
            \<and> cancel e req w = (ErrorPage (MsgException PermissionDenied), w))"
  using assms
  by (auto simp: cancel_def cancel_try_def cancel_block_def cancel_decision_def cancel_notify_def
        call_defs Let_def split: option.splits)

lemma cancel_under_review_examples:
  "filter is_audit_call (calls (snd (cancel (env_of gateway_direct)
      (form bob [(''workflow_id'', ''7''), (''cancel_remark'', ''no longer needed'')])
      (world7 ''workflow_manreviewing'')))) = [Call_audit 70 audit_abort ''bob'' ''no longer needed'']
   \<and> status_of (db (snd (cancel (env_of gateway_direct)
      (form bob [(''workflow_id'', ''7''), (''cancel_remark'', ''no longer needed'')])
      (world7 ''workflow_manreviewing'')))) 7 = Some ''workflow_abort''
   \<and> filter is_audit_call (calls (snd (cancel (env_of gateway_direct)
      (form alice [(''workflow_id'', ''7''), (''cancel_remark'', ''wrong table'')])
      (world7 ''workflow_manreviewing'')))) = [Call_audit 70 audit_reject ''alice'' ''wrong table'']
   \<and> status_of (db (snd (cancel (env_of gateway_direct)
      (form alice [(''workflow_id'', ''7''), (''cancel_remark'', ''wrong table'')])
      (world7 ''workflow_manreviewing'')))) 7 = Some ''workflow_abort''
   \<and> cancel (env_of gateway_direct)
      (form carol [(''workflow_id'', ''7''), (''cancel_remark'', ''stop'')])
      (world7 ''workflow_manreviewing'') =
        (ErrorPage (MsgException PermissionDenied), world7 ''workflow_manreviewing'')"
  using cancel_under_review [where e = "env_of gateway_direct"
          and req = "form bob [(''workflow_id'', ''7''), (''cancel_remark'', ''no longer needed'')]"
          and w = "world7 ''workflow_manreviewing''" and i = 7
          and r = "row7 ''workflow_manreviewing''" and remark = "''no longer needed''"
          and a = "\<lparr>audit_id = 70, current_status = audit_wait\<rparr>" and u = bob
          and res = audit_abort
          and store = "set_status 70 audit_abort (audit (db7 ''workflow_manreviewing''))"]
        cancel_under_review [where e = "env_of gateway_direct"
          and req = "form alice [(''workflow_id'', ''7''), (''cancel_remark'', ''wrong table'')]"
          and w = "world7 ''workflow_manreviewing''" and i = 7
          and r = "row7 ''workflow_manreviewing''" and remark = "''wrong table''"
          and a = "\<lparr>audit_id = 70, current_status = audit_wait\<rparr>" and u = alice
          and res = audit_reject
          and store = "set_status 70 audit_reject (audit (db7 ''workflow_manreviewing''))"]
        cancel_under_review [where e = "env_of gateway_direct"
          and req = "form carol [(''workflow_id'', ''7''), (''cancel_remark'', ''stop'')]"
          and w = "world7 ''workflow_manreviewing''" and i = 7
          and r = "row7 ''workflow_manreviewing''" and remark = "''stop''"
          and a = "\<lparr>audit_id = 70, current_status = audit_wait\<rparr>" and u = carol]
  by (simp add: installation_defs status_of_def)

text \<open>
  C2. The claim holds for the submitter and for the reviewer, as shown above.
  For an actor who is neither it asks for a hard authorization failure, and
  the view does write \<open>raise PermissionDenied\<close>, the statement that leaves
  \<open>execute\<close> and \<open>timing_task\<close> as that failure. In \<open>cancel\<close> the statement
  sits inside the \<open>try\<close> whose \<open>except Exception\<close> renders the error page: the
  exception never leaves the view. Here \<open>carol\<close>, who is neither, cancels
  workflow 7 under review: the block raises \<open>PermissionDenied\<close>, the answer is
  the error page and not the exception, nothing has changed; her call to
  \<open>timing_task\<close> does end in the exception.
\<close>

theorem cancel_by_neither_swallowed:
  "fst (cancel_block (env_of gateway_direct) carol 7 (row7 ''workflow_manreviewing'') ''stop''
      (world7 ''workflow_manreviewing'')) = Inl PermissionDenied
   \<and> cancel (env_of gateway_direct)
      (form carol [(''workflow_id'', ''7''), (''cancel_remark'', ''stop'')])
      (world7 ''workflow_manreviewing'')
        = (ErrorPage (MsgException PermissionDenied), world7 ''workflow_manreviewing'')
   \<and> fst (cancel (env_of gateway_direct)
      (form carol [(''workflow_id'', ''7''), (''cancel_remark'', ''stop'')])
      (world7 ''workflow_manreviewing'')) \<noteq> Raised PermissionDenied
   \<and> timing_task (env_of gateway_direct)
      (form carol [(''workflow_id'', ''7''), (''run_date'', ''2030-01-01 10:00'')])
      (world7 ''workflow_manreviewing'')
        = (Raised PermissionDenied, world7 ''workflow_manreviewing'')"
  by (simp add: installation_defs cancel_def cancel_try_def cancel_block_def
        cancel_decision_def timing_task_def call_defs Let_def)

text \<open>
  C3. A cancel call on a workflow whose status is not \<open>workflow_manreviewing\<close>
  never submits a decision to the audit gateway. When it passes the guards and
  the log entry is accepted, exactly one entry is appended to the audit log, of
  operation type 3 (cancel execution) for the submitter and of type 2 (review
  rejected) for anyone else; the timing schedule named for the workflow is
  removed when the status was \<open>workflow_timingtask\<close>, and the schedules are
  untouched otherwise; and the workflow ends in \<open>workflow_abort\<close>.
\<close>

theorem cancel_past_review:
  assumes "int_param (post req ''workflow_id'') = Some i"
    and "workflows (db w) i = Some r"
    and "status r \<noteq> ''workflow_manreviewing''"
    and "u = req_user req"
  shows "filter is_audit_call (calls (snd (cancel e req w))) = filter is_audit_call (calls w)
     \<and> (i \<noteq> 0 \<and> post req ''cancel_remark'' = Some remark \<and> can_cancel e (db w) u i \<and>
          details (audit (db w)) i = Some a \<and> add_log_error e = (\<lambda>d l. None) \<and>
          entry = (if username u = engineer r
                   then \<lparr>log_audit_id = audit_id a, operation_type = 3,
                         operation_type_desc = DescCancelExecute,
                         operation_info = InfoCancelReason remark,
                         operator = username u, operator_display = display u\<rparr>
                   else \<lparr>log_audit_id = audit_id a, operation_type = 2,
                         operation_type_desc = DescReviewRejected,
                         operation_info = InfoReviewRemark remark,
                         operator = username u, operator_display = display u\<rparr>) \<longrightarrow>
          logs (audit (db (snd (cancel e req w)))) = logs (audit (db w)) @ [entry]
          \<and> schedules (db (snd (cancel e req w))) =
              (if status r = ''workflow_timingtask''
               then (schedules (db w))(''sqlreview-timing-'' @ str_int i := None)
               else schedules (db w))
          \<and> workflows (db (snd (cancel e req w))) =
              (workflows (db w))(i \<mapsto> r\<lparr>status := ''workflow_abort''\<rparr>))"
proof (intro conjI impI)
  show "filter is_audit_call (calls (snd (cancel e req w))) = filter is_audit_call (calls w)"
    using assms audit_calls_cancel_try_past [of r e u i _ w]
    by (simp add: cancel_def objects_get_def split: option.splits)
next
  assume h: "i \<noteq> 0 \<and> post req ''cancel_remark'' = Some remark \<and> can_cancel e (db w) u i \<and>
          details (audit (db w)) i = Some a \<and> add_log_error e = (\<lambda>d l. None) \<and>
          entry = (if username u = engineer r
                   then \<lparr>log_audit_id = audit_id a, operation_type = 3,
                         operation_type_desc = DescCancelExecute,
                         operation_info = InfoCancelReason remark,
                         operator = username u, operator_display = display u\<rparr>
                   else \<lparr>log_audit_id = audit_id a, operation_type = 2,
                         operation_type_desc = DescReviewRejected,
                         operation_info = InfoReviewRemark remark,
                         operator = username u, operator_display = display u\<rparr>)"
  have view: "cancel e req w = cancel_try e u i r remark w"
    using assms h by (simp add: cancel_def objects_get_def)
  have block: "cancel_block e u i r remark w =
     (Inr (),
      \<lparr>db = \<lparr>workflows = (workflows (db w))(i \<mapsto> r\<lparr>status := ''workflow_abort''\<rparr>),
              audit = (audit (db w))\<lparr>logs := logs (audit (db w)) @ [entry]\<rparr>,
              schedules = (if status r = ''workflow_timingtask''
                           then (schedules (db w))(''sqlreview-timing-'' @ str_int i := None)
                           else schedules (db w))\<rparr>,
       calls = calls w @ [Call_add_log entry] @
               (if status r = ''workflow_timingtask''
                then [Call_del_schedule (''sqlreview-timing-'' @ str_int i)] else [])\<rparr>)"
    using cancel_block_past [of r w i a e entry u remark] assms(3) h by blast
  have after: "db (snd (cancel e req w)) =
      \<lparr>workflows = (workflows (db w))(i \<mapsto> r\<lparr>status := ''workflow_abort''\<rparr>),
       audit = (audit (db w))\<lparr>logs := logs (audit (db w)) @ [entry]\<rparr>,
       schedules = (if status r = ''workflow_timingtask''
                    then (schedules (db w))(''sqlreview-timing-'' @ str_int i := None)
                    else schedules (db w))\<rparr>"
    unfolding view cancel_try_def block by (simp add: atomic_def db_cancel_notify)
  show "logs (audit (db (snd (cancel e req w)))) = logs (audit (db w)) @ [entry]"
    unfolding after by simp
  show "schedules (db (snd (cancel e req w))) =
              (if status r = ''workflow_timingtask''
               then (schedules (db w))(''sqlreview-timing-'' @ str_int i := None)
               else schedules (db w))"
    unfolding after by simp
  show "workflows (db (snd (cancel e req w))) =
              (workflows (db w))(i \<mapsto> r\<lparr>status := ''workflow_abort''\<rparr>)"
    unfolding after by simp
qed

theorem cancel_past_review_witness:
  "filter is_audit_call (calls (snd (cancel (env_of gateway_direct)
      (form bob [(''workflow_id'', ''7''), (''cancel_remark'', ''postponed'')])
      (world7 ''workflow_timingtask'')))) = []
   \<and> logs (audit (db (snd (cancel (env_of gateway_direct)
      (form bob [(''workflow_id'', ''7''), (''cancel_remark'', ''postponed'')])
      (world7 ''workflow_timingtask''))))) =
        [\<lparr>log_audit_id = 70, operation_type = 3, operation_type_desc = DescCancelExecute,
          operation_info = InfoCancelReason ''postponed'',
          operator = ''bob'', operator_display = ''Bob''\<rparr>]
   \<and> schedules (db (snd (cancel (env_of gateway_direct)
      (form bob [(''workflow_id'', ''7''), (''cancel_remark'', ''postponed'')])
      (world7 ''workflow_timingtask'')))) ''sqlreview-timing-7'' = None
   \<and> status_of (db (snd (cancel (env_of gateway_direct)
      (form bob [(''workflow_id'', ''7''), (''cancel_remark'', ''postponed'')])
      (world7 ''workflow_timingtask'')))) 7 = Some ''workflow_abort''
   \<and> logs (audit (db (snd (cancel (env_of gateway_direct)
      (form alice [(''workflow_id'', ''7''), (''cancel_remark'', ''too risky'')])
      (world7 ''workflow_review_pass''))))) =
        [\<lparr>log_audit_id = 70, operation_type = 2, operation_type_desc = DescReviewRejected,
          operation_info = InfoReviewRemark ''too risky'',
          operator = ''alice'', operator_display = ''Alice''\<rparr>]"
  using cancel_past_review [where e = "env_of gateway_direct"
          and req = "form bob [(''workflow_id'', ''7''), (''cancel_remark'', ''postponed'')]"
          and w = "world7 ''workflow_timingtask''" and i = 7
          and r = "row7 ''workflow_timingtask''" and remark = "''postponed''"
          and a = "\<lparr>audit_id = 70, current_status = audit_wait\<rparr>" and u = bob
          and entry = "\<lparr>log_audit_id = 70, operation_type = 3,
                        operation_type_desc = DescCancelExecute,
                        operation_info = InfoCancelReason ''postponed'',
                        operator = ''bob'', operator_display = ''Bob''\<rparr>"]
        cancel_past_review [where e = "env_of gateway_direct"
          and req = "form alice [(''workflow_id'', ''7''), (''cancel_remark'', ''too risky'')]"
          and w = "world7 ''workflow_review_pass''" and i = 7
          and r = "row7 ''workflow_review_pass''" and remark = "''too risky''"
          and a = "\<lparr>audit_id = 70, current_status = audit_wait\<rparr>" and u = alice
          and entry = "\<lparr>log_audit_id = 70, operation_type = 2,
                        operation_type_desc = DescReviewRejected,
                        operation_info = InfoReviewRemark ''too risky'',
                        operator = ''alice'', operator_display = ''Alice''\<rparr>"]
  by (simp add: installation_defs status_of_def)

text \<open>
  C5. The claim is that a cancel call with an empty reason is rejected. The
  view tests only whether the field \<open>cancel_remark\<close> is absent: with the
  field present and empty, the submitter's cancel of workflow 7 goes through,
  the workflow ends in \<open>workflow_abort\<close> and the log records an empty reason.
\<close>

theorem cancel_empty_reason_accepted:
  "fst (cancel (env_of gateway_direct) (form bob [(''workflow_id'', ''7''), (''cancel_remark'', [])])
      (world7 ''workflow_review_pass'')) = Redirect ''7''
   \<and> status_of (db (snd (cancel (env_of gateway_direct)
        (form bob [(''workflow_id'', ''7''), (''cancel_remark'', [])])
        (world7 ''workflow_review_pass'')))) 7 = Some ''workflow_abort''
   \<and> logs (audit (db (snd (cancel (env_of gateway_direct)
        (form bob [(''workflow_id'', ''7''), (''cancel_remark'', [])])
        (world7 ''workflow_review_pass''))))) =
        [\<lparr>log_audit_id = 70, operation_type = 3, operation_type_desc = DescCancelExecute,
          operation_info = InfoCancelReason [], operator = ''bob'', operator_display = ''Bob''\<rparr>]"
  by (simp add: installation_defs status_of_def cancel_def cancel_try_def cancel_block_def
        cancel_decision_def cancel_notify_def is_notified_def call_defs Let_def)

section \<open>Transactions\<close>

lemma try_raises:
  "fst r = Inl x \<Longrightarrow> atomic w r = (Inl x, (snd r)\<lparr>db := db w\<rparr>)"
  by (cases r) (simp add: atomic_def)

lemma passed_try_raises:
  "fst (passed_block e u i remark w) = Inl x \<Longrightarrow>
     passed_try e u i remark w =
       (ErrorPage (MsgException x), (snd (passed_block e u i remark w))\<lparr>db := db w\<rparr>)"
  by (simp add: passed_try_def try_raises)

lemma timing_task_try_raises:
  "fst (timing_task_block e u i wid r rd w) = Inl x \<Longrightarrow>
     timing_task_try e u i wid r rd w =
       (ErrorPage (MsgException x), (snd (timing_task_block e u i wid r rd w))\<lparr>db := db w\<rparr>)"
  by (simp add: timing_task_try_def try_raises)

lemma cancel_try_raises:
  "fst (cancel_block e u i r remark w) = Inl x \<Longrightarrow>
     cancel_try e u i r remark w =
       (ErrorPage (MsgException x), (snd (cancel_block e u i r remark w))\<lparr>db := db w\<rparr>)"
  by (simp add: cancel_try_def try_raises)

lemma timing_task_block_commits:
  assumes "timing_task_block e u i wid r rd w = (Inr v, w')"
  shows "\<exists>a. details (audit (db w)) i = Some a
     \<and> workflows (db w') = (workflows (db w))(i \<mapsto> r\<lparr>status := ''workflow_timingtask''\<rparr>)
     \<and> schedules (db w') = (schedules (db w))
          (''sqlreview-timing-'' @ wid \<mapsto> \<lparr>next_run = rd, payload = wid\<rparr>)
     \<and> logs (audit (db w')) = logs (audit (db w)) @
          [\<lparr>log_audit_id = audit_id a, operation_type = 4, operation_type_desc = DescTiming,
            operation_info = InfoTimingAt rd, operator = username u,
            operator_display = display u\<rparr>]"
  using assms
  by (auto simp: timing_task_block_def call_defs Let_def split: option.splits)

lemma cancel_block_commits:
  assumes "status r \<noteq> ''workflow_manreviewing''"
    and "cancel_block e u i r remark w = (Inr v, w')"
  shows "workflows (db w') = (workflows (db w))(i \<mapsto> r\<lparr>status := ''workflow_abort''\<rparr>)
     \<and> (\<exists>entry. logs (audit (db w')) = logs (audit (db w)) @ [entry]
            \<and> (operation_type entry = 2 \<or> operation_type entry = 3))"
proof -
  obtain a where a: "details (audit (db w)) i = Some a"
    using assms(2) by (cases "details (audit (db w)) i")
      (simp_all add: cancel_block_def detail_by_workflow_id_def)
  let ?entry = "if username u = engineer r
                then \<lparr>log_audit_id = audit_id a, operation_type = 3,
                      operation_type_desc = DescCancelExecute,
                      operation_info = InfoCancelReason remark,
                      operator = username u, operator_display = display u\<rparr>
                else \<lparr>log_audit_id = audit_id a, operation_type = 2,
                      operation_type_desc = DescReviewRejected,
                      operation_info = InfoReviewRemark remark,
                      operator = username u, operator_display = display u\<rparr>"
  have dec: "cancel_decision e u r a remark w = add_log e ?entry w"
    using assms(1) by (simp add: cancel_decision_def)
  have ok: "add_log_error e (db w) ?entry = None"
    using assms(2) a dec
    by (cases "add_log_error e (db w) ?entry")
       (simp_all add: cancel_block_def detail_by_workflow_id_def add_log_def Let_def)
  have "add_log e ?entry w =
      (Inr (), \<lparr>db = (db w)\<lparr>audit := (audit (db w))\<lparr>logs := logs (audit (db w)) @ [?entry]\<rparr>\<rparr>,
                 calls = calls w @ [Call_add_log ?entry]\<rparr>)"
    using ok by (simp add: add_log_def Let_def)
  then have w': "db w' =
      \<lparr>workflows = (workflows (db w))(i \<mapsto> r\<lparr>status := ''workflow_abort''\<rparr>),
       audit = (audit (db w))\<lparr>logs := logs (audit (db w)) @ [?entry]\<rparr>,
       schedules = (if status r = ''workflow_timingtask''
                    then (schedules (db w))(''sqlreview-timing-'' @ str_int i := None)
                    else schedules (db w))\<rparr>"
    using assms(2) a dec
    by (auto simp: cancel_block_def detail_by_workflow_id_def del_schedule_def save_object_def
          Let_def)
  have "operation_type ?entry = 2 \<or> operation_type ?entry = 3"
    by simp
  then show ?thesis
    unfolding w' by (simp del: if_split)
qed

lemma passed_enters:
  "passed_reaches_block e req w i \<Longrightarrow>
     passed e req w = passed_try e (req_user req) i (audit_remark_of req) w"
  by (simp add: passed_reaches_block_def passed_def audit_remark_of_def Let_def)

lemma timing_task_enters:
  "timing_task_reaches_block e req w wid i r t \<Longrightarrow>
     timing_task e req w = timing_task_try e (req_user req) i wid r t w"
  by (auto simp: timing_task_reaches_block_def timing_task_def timing_task_checked_def Let_def
        split: option.splits)

lemma cancel_enters:
  "cancel_reaches_block e req w i r remark \<Longrightarrow>
     cancel e req w = cancel_try e (req_user req) i r remark w"
  by (simp add: cancel_reaches_block_def cancel_def objects_get_def)

lemma passed_guards_refuse:
  "(\<not> has_perm (req_user req) ''sql.sql_review'' \<longrightarrow>
      passed e req w = (Raised PermissionDenied, w))
   \<and> (has_perm (req_user req) ''sql.sql_review'' \<and>
        int_param (post req ''workflow_id'') = None \<longrightarrow>
      passed e req w = (Raised ValueError, w))
   \<and> (has_perm (req_user req) ''sql.sql_review'' \<and>
        int_param (post req ''workflow_id'') = Some 0 \<longrightarrow>
      passed e req w = (ErrorPage MsgWorkflowIdEmpty, w))
   \<and> (has_perm (req_user req) ''sql.sql_review'' \<and>
        int_param (post req ''workflow_id'') = Some i \<and> i \<noteq> 0 \<and>
        \<not> can_review e (db w) (req_user req) i \<longrightarrow>
      passed e req w = (ErrorPage MsgNotAuthorised, w))"
  by (simp add: passed_def Let_def)

lemma timing_task_guards_refuse:
  "(\<not> (has_perm (req_user req) ''sql.sql_execute''
        \<or> has_perm (req_user req) ''sql.sql_execute_for_resource_group'') \<longrightarrow>
      timing_task e req w = (Raised PermissionDenied, w))
   \<and> ((has_perm (req_user req) ''sql.sql_execute''
        \<or> has_perm (req_user req) ''sql.sql_execute_for_resource_group'') \<longrightarrow>
      (post req ''run_date'' = None \<or> post req ''workflow_id'' = None \<longrightarrow>
         timing_task e req w = (ErrorPage MsgTimeEmpty, w))
      \<and> (post req ''run_date'' = Some rd \<and> post req ''workflow_id'' = Some wid \<longrightarrow>
         (rd < strftime_ymdhms (now e) \<longrightarrow>
            timing_task e req w = (ErrorPage MsgTimeBeforeNow, w))
         \<and> (\<not> rd < strftime_ymdhms (now e) \<longrightarrow>
            (objects_get_str (db w) wid = Inl x \<longrightarrow> timing_task e req w = (Raised x, w))
            \<and> (objects_get_str (db w) wid = Inr (i, r) \<longrightarrow>
               (\<not> can_timingtask e (db w) (req_user req) i \<longrightarrow>
                  timing_task e req w = (ErrorPage MsgNotAuthorised, w))
               \<and> (can_timingtask e (db w) (req_user req) i \<longrightarrow>
                  (strptime_ymdhm rd = None \<longrightarrow> timing_task e req w = (Raised ValueError, w))
                  \<and> (strptime_ymdhm rd = Some t \<and>
                       \<not> on_correct_time_period e (db w) i (Some t) \<longrightarrow>
                     timing_task e req w = (ErrorPage MsgNotInPeriodTiming, w)))))))"
  by (auto simp: timing_task_def timing_task_checked_def Let_def split: option.splits)

lemma cancel_guards_refuse:
  "(int_param (post req ''workflow_id'') = None \<longrightarrow> cancel e req w = (Raised ValueError, w))
   \<and> (int_param (post req ''workflow_id'') = Some 0 \<longrightarrow>
        cancel e req w = (ErrorPage MsgWorkflowIdEmpty, w))
   \<and> (int_param (post req ''workflow_id'') = Some i \<and> i \<noteq> 0 \<longrightarrow>
        (workflows (db w) i = None \<longrightarrow> cancel e req w = (Raised DoesNotExist, w))
        \<and> (workflows (db w) i = Some r \<longrightarrow>
           (post req ''cancel_remark'' = None \<longrightarrow>
              cancel e req w = (ErrorPage MsgCancelReasonEmpty, w))
           \<and> (post req ''cancel_remark'' = Some remark \<and>
                \<not> can_cancel e (db w) (req_user req) i \<longrightarrow>
              cancel e req w = (ErrorPage MsgNotAuthorised, w))))"
  by (simp add: cancel_def objects_get_def)


lemma passed_rolls_back:
  assumes "passed_reaches_block e req w i"
    and "fst (passed_block e (req_user req) i (audit_remark_of req) w) = Inl x"
  shows "fst (passed e req w) = ErrorPage (MsgException x) \<and> db (snd (passed e req w)) = db w"
  using assms by (simp add: passed_enters passed_try_raises)

lemma timing_task_rolls_back:
  assumes "timing_task_reaches_block e req w wid i r t"
    and "fst (timing_task_block e (req_user req) i wid r t w) = Inl x"
  shows "fst (timing_task e req w) = ErrorPage (MsgException x)
     \<and> db (snd (timing_task e req w)) = db w"
  using assms by (simp add: timing_task_enters timing_task_try_raises)

lemma cancel_rolls_back:
  assumes "cancel_reaches_block e req w i r remark"
    and "fst (cancel_block e (req_user req) i r remark w) = Inl x"
  shows "fst (cancel e req w) = ErrorPage (MsgException x) \<and> db (snd (cancel e req w)) = db w"
  using assms by (simp add: cancel_enters cancel_try_raises)

text \<open>Failures after writes, stated on what the collaborators answer.\<close>

lemma passed_block_save_fails:
  assumes "details (audit (db w)) i = Some a"
    and "audit_gateway e (db w) (audit_id a) audit_success (username u) remark
           = Inr (audit_success, store)"
    and "workflows (db w) i = None"
  shows "passed_block e u i remark w =
     (Inl DatabaseError,
      \<lparr>db = (db w)\<lparr>audit := store\<rparr>,
       calls = calls w @ [Call_audit (audit_id a) audit_success (username u) remark]\<rparr>)"
  using assms
  by (simp add: passed_block_def detail_by_workflow_id_def audit_call_def save_update_fields_def
        Let_def)

lemma timing_task_block_log_fails:
  assumes "add_schedule_error e = (\<lambda>d n. None)"
    and "details (audit (db w)) i = Some a"
    and "add_log_error e = (\<lambda>d l. Some x)"
  shows "fst (timing_task_block e u i wid r t w) = Inl x
     \<and> status_of (db (snd (timing_task_block e u i wid r t w))) i = Some ''workflow_timingtask''
     \<and> schedules (db (snd (timing_task_block e u i wid r t w))) (''sqlreview-timing-'' @ wid)
          = Some \<lparr>next_run = t, payload = wid\<rparr>"
  using assms
  by (simp add: timing_task_block_def save_object_def add_sql_schedule_def
        detail_by_workflow_id_def add_log_def status_of_def Let_def)

lemma cancel_by_neither_unchanged:
  assumes "cancel_reaches_block e req w i r remark"
    and "status r = ''workflow_manreviewing''"
    and "username (req_user req) \<noteq> engineer r"
    and "\<not> has_perm (req_user req) ''sql.sql_review''"
  shows "snd (cancel e req w) = w"
proof -
  have "snd (cancel_block e (req_user req) i r remark w) = w
        \<and> (\<exists>x. fst (cancel_block e (req_user req) i r remark w) = Inl x)"
    using assms(2-4)
    by (simp add: cancel_block_def cancel_decision_def detail_by_workflow_id_def
          split: option.splits)
  then obtain x where "cancel_block e (req_user req) i r remark w = (Inl x, w)"
    by (cases "cancel_block e (req_user req) i r remark w") auto
  then show ?thesis
    using assms(1) by (simp add: cancel_enters cancel_try_def atomic_def)
qed

lemma timing_task_commits:
  assumes "timing_task_reaches_block e req w wid i r t"
    and "fst (timing_task_block e (req_user req) i wid r t w) = Inr v"
  shows "fst (timing_task e req w) = Redirect wid
     \<and> status_of (db (snd (timing_task e req w))) i = Some ''workflow_timingtask''
     \<and> schedules (db (snd (timing_task e req w))) (''sqlreview-timing-'' @ wid)
          = Some \<lparr>next_run = t, payload = wid\<rparr>
     \<and> (\<exists>entry. logs (audit (db (snd (timing_task e req w)))) = logs (audit (db w)) @ [entry]
                  \<and> operation_type entry = 4)"
proof -
  obtain w' where b: "timing_task_block e (req_user req) i wid r t w = (Inr v, w')"
    using assms(2) by (cases "timing_task_block e (req_user req) i wid r t w") simp
  then have t: "timing_task e req w = (Redirect wid, w')"
    using assms(1) by (simp add: timing_task_enters timing_task_try_def atomic_def)
  from timing_task_block_commits [OF b]
  obtain a :: audit_detail where
    c: "workflows (db w') = (workflows (db w))(i \<mapsto> r\<lparr>status := ''workflow_timingtask''\<rparr>)"
    "schedules (db w') = (schedules (db w))
          (''sqlreview-timing-'' @ wid \<mapsto> \<lparr>next_run = t, payload = wid\<rparr>)"
    "logs (audit (db w')) = logs (audit (db w)) @
          [\<lparr>log_audit_id = audit_id a, operation_type = 4, operation_type_desc = DescTiming,
            operation_info = InfoTimingAt t, operator = username (req_user req),
            operator_display = display (req_user req)\<rparr>]"
    by auto
  show ?thesis
    unfolding t using c by (simp add: status_of_def)
qed

lemma cancel_commits:
  assumes "cancel_reaches_block e req w i r remark"
    and "status r \<noteq> ''workflow_manreviewing''"
    and "fst (cancel_block e (req_user req) i r remark w) = Inr v"
  shows "status_of (db (snd (cancel e req w))) i = Some ''workflow_abort''
     \<and> (\<exists>entry. logs (audit (db (snd (cancel e req w)))) = logs (audit (db w)) @ [entry]
                  \<and> (operation_type entry = 2 \<or> operation_type entry = 3))"
proof -
  obtain w' where b: "cancel_block e (req_user req) i r remark w = (Inr v, w')"
    using assms(3) by (cases "cancel_block e (req_user req) i r remark w") simp
  then have t: "db (snd (cancel e req w)) = db w'"
    using assms(1) by (simp add: cancel_enters cancel_try_def atomic_def db_cancel_notify)
  from cancel_block_commits [OF assms(2) b]
  have c: "workflows (db w') = (workflows (db w))(i \<mapsto> r\<lparr>status := ''workflow_abort''\<rparr>)"
    "\<exists>entry. logs (audit (db w')) = logs (audit (db w)) @ [entry]
            \<and> (operation_type entry = 2 \<or> operation_type entry = 3)"
    by simp_all
  show ?thesis
    unfolding t using c by (simp add: status_of_def)
qed


lemma passed_transaction:
  "(passed_reaches_block e req w i \<longrightarrow>
     (fst (passed_block e (req_user req) i (audit_remark_of req) w) = Inl x \<longrightarrow>
        fst (passed e req w) = ErrorPage (MsgException x) \<and> db (snd (passed e req w)) = db w)
     \<and> (details (audit (db w)) i = Some a \<and>
          audit_gateway e (db w) (audit_id a) audit_success (username (req_user req))
            (audit_remark_of req) = Inr (audit_success, store) \<and>
          workflows (db w) i = None \<longrightarrow>
        fst (passed e req w) = ErrorPage (MsgException DatabaseError)
        \<and> db (snd (passed e req w)) = db w))"
proof (intro impI conjI)
  assume r: "passed_reaches_block e req w i"
  {
    assume "fst (passed_block e (req_user req) i (audit_remark_of req) w) = Inl x"
    with r show "fst (passed e req w) = ErrorPage (MsgException x)"
      and "db (snd (passed e req w)) = db w"
      using passed_rolls_back by blast+
  }
  assume "details (audit (db w)) i = Some a \<and>
          audit_gateway e (db w) (audit_id a) audit_success (username (req_user req))
            (audit_remark_of req) = Inr (audit_success, store) \<and>
          workflows (db w) i = None"
  then have "fst (passed_block e (req_user req) i (audit_remark_of req) w) = Inl DatabaseError"
    by (simp add: passed_block_save_fails)
  with r show "fst (passed e req w) = ErrorPage (MsgException DatabaseError)"
    and "db (snd (passed e req w)) = db w"
    using passed_rolls_back by blast+
qed

lemma timing_task_transaction:
  "(timing_task_reaches_block e req w wid i r t \<longrightarrow>
     (fst (timing_task_block e (req_user req) i wid r t w) = Inl x \<longrightarrow>
        fst (timing_task e req w) = ErrorPage (MsgException x)
        \<and> db (snd (timing_task e req w)) = db w)
     \<and> (add_schedule_error e = (\<lambda>d n. None) \<and> details (audit (db w)) i = Some a \<and>
          add_log_error e = (\<lambda>d l. Some x) \<longrightarrow>
        fst (timing_task e req w) = ErrorPage (MsgException x)
        \<and> db (snd (timing_task e req w)) = db w)
     \<and> (fst (timing_task_block e (req_user req) i wid r t w) = Inr v \<longrightarrow>
        fst (timing_task e req w) = Redirect wid
        \<and> status_of (db (snd (timing_task e req w))) i = Some ''workflow_timingtask''
        \<and> schedules (db (snd (timing_task e req w))) (''sqlreview-timing-'' @ wid)
             = Some \<lparr>next_run = t, payload = wid\<rparr>
        \<and> (\<exists>entry. logs (audit (db (snd (timing_task e req w)))) =
                      logs (audit (db w)) @ [entry] \<and> operation_type entry = 4)))"
proof (intro impI conjI)
  assume r: "timing_task_reaches_block e req w wid i r t"
  {
    assume "fst (timing_task_block e (req_user req) i wid r t w) = Inl x"
    with r show "fst (timing_task e req w) = ErrorPage (MsgException x)"
      and "db (snd (timing_task e req w)) = db w"
      using timing_task_rolls_back by blast+
  }
  {
    assume "add_schedule_error e = (\<lambda>d n. None) \<and> details (audit (db w)) i = Some a \<and>
          add_log_error e = (\<lambda>d l. Some x)"
    then have "fst (timing_task_block e (req_user req) i wid r t w) = Inl x"
      using timing_task_block_log_fails [of e w i a x "req_user req" wid r t] by simp
    with r show "fst (timing_task e req w) = ErrorPage (MsgException x)"
      and "db (snd (timing_task e req w)) = db w"
      using timing_task_rolls_back by blast+
  }
  assume "fst (timing_task_block e (req_user req) i wid r t w) = Inr v"
  with r have c: "fst (timing_task e req w) = Redirect wid
     \<and> status_of (db (snd (timing_task e req w))) i = Some ''workflow_timingtask''
     \<and> schedules (db (snd (timing_task e req w))) (''sqlreview-timing-'' @ wid)
          = Some \<lparr>next_run = t, payload = wid\<rparr>
     \<and> (\<exists>entry. logs (audit (db (snd (timing_task e req w)))) = logs (audit (db w)) @ [entry]
                  \<and> operation_type entry = 4)"
    by (rule timing_task_commits)
  from c show "fst (timing_task e req w) = Redirect wid" by simp
  from c show "status_of (db (snd (timing_task e req w))) i = Some ''workflow_timingtask''"
    by simp
  from c show "schedules (db (snd (timing_task e req w))) (''sqlreview-timing-'' @ wid)
             = Some \<lparr>next_run = t, payload = wid\<rparr>" by simp
  from c show "\<exists>entry. logs (audit (db (snd (timing_task e req w)))) =
                      logs (audit (db w)) @ [entry] \<and> operation_type entry = 4" by simp
qed

lemma cancel_transaction:
  "(cancel_reaches_block e req w i r remark \<longrightarrow>
     (fst (cancel_block e (req_user req) i r remark w) = Inl x \<longrightarrow>
        fst (cancel e req w) = ErrorPage (MsgException x) \<and> db (snd (cancel e req w)) = db w)
     \<and> (status r \<noteq> ''workflow_manreviewing'' \<and>
          fst (cancel_block e (req_user req) i r remark w) = Inr v \<longrightarrow>
        status_of (db (snd (cancel e req w))) i = Some ''workflow_abort''
        \<and> (\<exists>entry. logs (audit (db (snd (cancel e req w)))) = logs (audit (db w)) @ [entry]
                     \<and> (operation_type entry = 2 \<or> operation_type entry = 3)))
     \<and> (status r = ''workflow_manreviewing'' \<and> username (req_user req) \<noteq> engineer r \<and>
          \<not> has_perm (req_user req) ''sql.sql_review'' \<longrightarrow>
        snd (cancel e req w) = w))"
proof (intro impI conjI)
  assume r: "cancel_reaches_block e req w i r remark"
  {
    assume "fst (cancel_block e (req_user req) i r remark w) = Inl x"
    with r show "fst (cancel e req w) = ErrorPage (MsgException x)"
      and "db (snd (cancel e req w)) = db w"
      using cancel_rolls_back by blast+
  }
  {
    assume h: "status r \<noteq> ''workflow_manreviewing'' \<and>
          fst (cancel_block e (req_user req) i r remark w) = Inr v"
    with r have c: "status_of (db (snd (cancel e req w))) i = Some ''workflow_abort''
     \<and> (\<exists>entry. logs (audit (db (snd (cancel e req w)))) = logs (audit (db w)) @ [entry]
                  \<and> (operation_type entry = 2 \<or> operation_type entry = 3))"
      using cancel_commits [of e req w i r remark v] by simp
    from c show "status_of (db (snd (cancel e req w))) i = Some ''workflow_abort''" by simp
    from c show "\<exists>entry. logs (audit (db (snd (cancel e req w)))) = logs (audit (db w)) @ [entry]
                     \<and> (operation_type entry = 2 \<or> operation_type entry = 3)" by simp
  }
  assume "status r = ''workflow_manreviewing'' \<and> username (req_user req) \<noteq> engineer r \<and>
          \<not> has_perm (req_user req) ''sql.sql_review''"
  with r show "snd (cancel e req w) = w"
    using cancel_by_neither_unchanged by blast
qed

text \<open>
  C7. For approve, schedule and cancel, once the checks before the \<open>try\<close>
  have passed: whenever the block inside \<open>transaction.atomic()\<close> raises, the
  view answers with the error page carrying the exception and the database is
  the one the call started from. That holds after writes too: when the audit
  gateway has recorded an approval and the write of the status then fails, and
  when schedule has written the status and the schedule and the log entry then
  fails. When the block of schedule returns, the status, the schedule and
  exactly one log entry of type 4 are there together; when the block of cancel
  returns for a workflow past review, the status and exactly one log entry of
  type 2 or 3 are there together. And every guard that fails stops the call
  with nothing changed, neither the database nor the calls made: a missing
  permission, a workflow id or a time that is absent or malformed, a refused
  capability, a time outside the window, an absent reason. The one authority
  check that cancel makes inside its block, for an actor who is neither the
  submitter nor a reviewer, leaves everything unchanged as well.
\<close>

theorem transactions_all_or_nothing:
  "(passed_reaches_block e req w i \<longrightarrow>
     (fst (passed_block e (req_user req) i (audit_remark_of req) w) = Inl x \<longrightarrow>
        fst (passed e req w) = ErrorPage (MsgException x) \<and> db (snd (passed e req w)) = db w)
     \<and> (details (audit (db w)) i = Some a \<and>
          audit_gateway e (db w) (audit_id a) audit_success (username (req_user req))
            (audit_remark_of req) = Inr (audit_success, store) \<and>
          workflows (db w) i = None \<longrightarrow>
        fst (passed e req w) = ErrorPage (MsgException DatabaseError)
        \<and> db (snd (passed e req w)) = db w))
   \<and> (timing_task_reaches_block e req w wid i r t \<longrightarrow>
     (fst (timing_task_block e (req_user req) i wid r t w) = Inl x \<longrightarrow>
        fst (timing_task e req w) = ErrorPage (MsgException x)
        \<and> db (snd (timing_task e req w)) = db w)
     \<and> (add_schedule_error e = (\<lambda>d n. None) \<and> details (audit (db w)) i = Some a \<and>
          add_log_error e = (\<lambda>d l. Some x) \<longrightarrow>
        fst (timing_task e req w) = ErrorPage (MsgException x)
        \<and> db (snd (timing_task e req w)) = db w)
     \<and> (fst (timing_task_block e (req_user req) i wid r t w) = Inr v \<longrightarrow>
        fst (timing_task e req w) = Redirect wid
        \<and> status_of (db (snd (timing_task e req w))) i = Some ''workflow_timingtask''
        \<and> schedules (db (snd (timing_task e req w))) (''sqlreview-timing-'' @ wid)
             = Some \<lparr>next_run = t, payload = wid\<rparr>
        \<and> (\<exists>entry. logs (audit (db (snd (timing_task e req w)))) =
                      logs (audit (db w)) @ [entry] \<and> operation_type entry = 4)))
   \<and> (cancel_reaches_block e req w i r remark \<longrightarrow>
     (fst (cancel_block e (req_user req) i r remark w) = Inl x \<longrightarrow>
        fst (cancel e req w) = ErrorPage (MsgException x) \<and> db (snd (cancel e req w)) = db w)
     \<and> (status r \<noteq> ''workflow_manreviewing'' \<and>
          fst (cancel_block e (req_user req) i r remark w) = Inr v \<longrightarrow>
        status_of (db (snd (cancel e req w))) i = Some ''workflow_abort''
        \<and> (\<exists>entry. logs (audit (db (snd (cancel e req w)))) = logs (audit (db w)) @ [entry]
                     \<and> (operation_type entry = 2 \<or> operation_type entry = 3)))
     \<and> (status r = ''workflow_manreviewing'' \<and> username (req_user req) \<noteq> engineer r \<and>
          \<not> has_perm (req_user req) ''sql.sql_review'' \<longrightarrow>
        snd (cancel e req w) = w))
   \<and> ((\<not> has_perm (req_user req) ''sql.sql_review'' \<longrightarrow>
      passed e req w = (Raised PermissionDenied, w))
   \<and> (has_perm (req_user req) ''sql.sql_review'' \<and>
        int_param (post req ''workflow_id'') = None \<longrightarrow>
      passed e req w = (Raised ValueError, w))
   \<and> (has_perm (req_user req) ''sql.sql_review'' \<and>
        int_param (post req ''workflow_id'') = Some 0 \<longrightarrow>
      passed e req w = (ErrorPage MsgWorkflowIdEmpty, w))
   \<and> (has_perm (req_user req) ''sql.sql_review'' \<and>
        int_param (post req ''workflow_id'') = Some i \<and> i \<noteq> 0 \<and>
        \<not> can_review e (db w) (req_user req) i \<longrightarrow>
      passed e req w = (ErrorPage MsgNotAuthorised, w)))
   \<and> ((\<not> (has_perm (req_user req) ''sql.sql_execute''
        \<or> has_perm (req_user req) ''sql.sql_execute_for_resource_group'') \<longrightarrow>
      timing_task e req w = (Raised PermissionDenied, w))
   \<and> ((has_perm (req_user req) ''sql.sql_execute''
        \<or> has_perm (req_user req) ''sql.sql_execute_for_resource_group'') \<longrightarrow>
      (post req ''run_date'' = None \<or> post req ''workflow_id'' = None \<longrightarrow>
         timing_task e req w = (ErrorPage MsgTimeEmpty, w))
      \<and> (post req ''run_date'' = Some rd \<and> post req ''workflow_id'' = Some wid \<longrightarrow>
         (rd < strftime_ymdhms (now e) \<longrightarrow>
            timing_task e req w = (ErrorPage MsgTimeBeforeNow, w))
         \<and> (\<not> rd < strftime_ymdhms (now e) \<longrightarrow>
            (objects_get_str (db w) wid = Inl x \<longrightarrow> timing_task e req w = (Raised x, w))
            \<and> (objects_get_str (db w) wid = Inr (i, r) \<longrightarrow>
               (\<not> can_timingtask e (db w) (req_user req) i \<longrightarrow>
                  timing_task e req w = (ErrorPage MsgNotAuthorised, w))
               \<and> (can_timingtask e (db w) (req_user req) i \<longrightarrow>
                  (strptime_ymdhm rd = None \<longrightarrow> timing_task e req w = (Raised ValueError, w))
                  \<and> (strptime_ymdhm rd = Some t \<and>
                       \<not> on_correct_time_period e (db w) i (Some t) \<longrightarrow>
                     timing_task e req w = (ErrorPage MsgNotInPeriodTiming, w))))))))
   \<and> ((int_param (post req ''workflow_id'') = None \<longrightarrow> cancel e req w = (Raised ValueError, w))
   \<and> (int_param (post req ''workflow_id'') = Some 0 \<longrightarrow>
        cancel e req w = (ErrorPage MsgWorkflowIdEmpty, w))
   \<and> (int_param (post req ''workflow_id'') = Some i \<and> i \<noteq> 0 \<longrightarrow>
        (workflows (db w) i = None \<longrightarrow> cancel e req w = (Raised DoesNotExist, w))
        \<and> (workflows (db w) i = Some r \<longrightarrow>
           (post req ''cancel_remark'' = None \<longrightarrow>
              cancel e req w = (ErrorPage MsgCancelReasonEmpty, w))
           \<and> (post req ''cancel_remark'' = Some remark \<and>
                \<not> can_cancel e (db w) (req_user req) i \<longrightarrow>
              cancel e req w = (ErrorPage MsgNotAuthorised, w)))))"
  by (rule conjI, rule passed_transaction, rule conjI, rule timing_task_transaction,
      rule conjI, rule cancel_transaction, rule conjI, rule passed_guards_refuse,
      rule conjI, rule timing_task_guards_refuse, rule cancel_guards_refuse)

theorem transactions_all_or_nothing_witness:
  "fst (timing_task env_log_down
      (form bob [(''workflow_id'', ''7''), (''run_date'', ''2030-01-01 10:00'')])
      (world7 ''workflow_review_pass'')) = ErrorPage (MsgException (OtherError ''log down''))
   \<and> db (snd (timing_task env_log_down
      (form bob [(''workflow_id'', ''7''), (''run_date'', ''2030-01-01 10:00'')])
      (world7 ''workflow_review_pass''))) = db7 ''workflow_review_pass''
   \<and> status_of (db (snd (timing_task (env_of gateway_direct)
      (form bob [(''workflow_id'', ''7''), (''run_date'', ''2030-01-01 10:00'')])
      (world7 ''workflow_review_pass'')))) 7 = Some ''workflow_timingtask''
   \<and> fst (passed (env_of gateway_direct) (form alice [(''workflow_id'', ''7'')])
      ((world7 ''workflow_manreviewing'')
         \<lparr>db := (db7 ''workflow_manreviewing'')\<lparr>workflows := Map.empty\<rparr>\<rparr>))
        = ErrorPage (MsgException DatabaseError)
   \<and> db (snd (passed (env_of gateway_direct) (form alice [(''workflow_id'', ''7'')])
      ((world7 ''workflow_manreviewing'')
         \<lparr>db := (db7 ''workflow_manreviewing'')\<lparr>workflows := Map.empty\<rparr>\<rparr>)))
        = (db7 ''workflow_manreviewing'')\<lparr>workflows := Map.empty\<rparr>
   \<and> snd (cancel (env_of gateway_direct)
      (form carol [(''workflow_id'', ''7''), (''cancel_remark'', ''stop'')])
      (world7 ''workflow_manreviewing'')) = world7 ''workflow_manreviewing''
   \<and> db (snd (cancel env_log_down
      (form bob [(''workflow_id'', ''7''), (''cancel_remark'', ''stop'')])
      (world7 ''workflow_timingtask''))) = db7 ''workflow_timingtask''
   \<and> passed env_refusing (form alice [(''workflow_id'', ''7'')])
        (world7 ''workflow_manreviewing'')
        = (ErrorPage MsgNotAuthorised, world7 ''workflow_manreviewing'')
   \<and> timing_task env_refusing
        (form alice [(''workflow_id'', ''7''), (''run_date'', ''2030-01-01 10:00'')])
        (world7 ''workflow_manreviewing'')
        = (ErrorPage MsgNotAuthorised, world7 ''workflow_manreviewing'')
   \<and> cancel env_refusing (form alice [(''workflow_id'', ''7''), (''cancel_remark'', ''stop'')])
        (world7 ''workflow_manreviewing'')
        = (ErrorPage MsgNotAuthorised, world7 ''workflow_manreviewing'')"
  using transactions_all_or_nothing [where e = env_log_down
          and req = "form bob [(''workflow_id'', ''7''), (''run_date'', ''2030-01-01 10:00'')]"
          and w = "world7 ''workflow_review_pass''" and wid = "''7''" and i = 7
          and r = "row7 ''workflow_review_pass''" and t = t_2030
          and a = "\<lparr>audit_id = 70, current_status = audit_wait\<rparr>"
          and x = "OtherError ''log down''"]
        transactions_all_or_nothing [where e = "env_of gateway_direct"
          and req = "form bob [(''workflow_id'', ''7''), (''run_date'', ''2030-01-01 10:00'')]"
          and w = "world7 ''workflow_review_pass''" and wid = "''7''" and i = 7
          and r = "row7 ''workflow_review_pass''" and t = t_2030 and v = "()"]
        transactions_all_or_nothing [where e = "env_of gateway_direct"
          and req = "form alice [(''workflow_id'', ''7'')]"
          and w = "(world7 ''workflow_manreviewing'')
                     \<lparr>db := (db7 ''workflow_manreviewing'')\<lparr>workflows := Map.empty\<rparr>\<rparr>"
          and i = 7 and a = "\<lparr>audit_id = 70, current_status = audit_wait\<rparr>"
          and store = "set_status 70 audit_success (audit (db7 ''workflow_manreviewing''))"]
        transactions_all_or_nothing [where e = "env_of gateway_direct"
          and req = "form carol [(''workflow_id'', ''7''), (''cancel_remark'', ''stop'')]"
          and w = "world7 ''workflow_manreviewing''" and i = 7
          and r = "row7 ''workflow_manreviewing''" and remark = "''stop''"]
        transactions_all_or_nothing [where e = env_log_down
          and req = "form bob [(''workflow_id'', ''7''), (''cancel_remark'', ''stop'')]"
          and w = "world7 ''workflow_timingtask''" and i = 7
          and r = "row7 ''workflow_timingtask''" and remark = "''stop''"
          and x = "OtherError ''log down''"]
        transactions_all_or_nothing [where e = env_refusing
          and req = "form alice [(''workflow_id'', ''7'')]"
          and w = "world7 ''workflow_manreviewing''" and i = 7]
        transactions_all_or_nothing [where e = env_refusing
          and req = "form alice [(''workflow_id'', ''7''), (''run_date'', ''2030-01-01 10:00'')]"
          and w = "world7 ''workflow_manreviewing''" and i = 7 and wid = "''7''"
          and rd = "''2030-01-01 10:00''" and r = "row7 ''workflow_manreviewing''"]
        transactions_all_or_nothing [where e = env_refusing
          and req = "form alice [(''workflow_id'', ''7''), (''cancel_remark'', ''stop'')]"
          and w = "world7 ''workflow_manreviewing''" and i = 7
          and r = "row7 ''workflow_manreviewing''" and remark = "''stop''"]
  by (simp add: installation_defs env_refusing_def status_of_def now_text strptime_2030
        passed_reaches_block_def timing_task_reaches_block_def cancel_reaches_block_def
        audit_remark_of_def objects_get_str_def timing_task_block_def
        cancel_block_def cancel_decision_def call_defs Let_def)

section \<open>The workflow id\<close>

text \<open>
  C8, as amended. For approve, alter run date, execute and cancel, once the
  permission check at the head of the view has passed, a \<open>workflow_id\<close> that
  is absent or zero is answered with the message that the workflow id is
  empty, and one that is not a number with the \<open>ValueError\<close> of the
  conversion, as \<open>int\<close> reads it: white space around the digits is
  dropped, a separator such as 0x1F is not. The answer does not depend on any
  guard, and nothing has changed. Schedule answers an absent \<open>workflow_id\<close>
  with a message of its own, before it looks anything up.
\<close>

theorem bad_workflow_id_rejected:
  assumes "bad_workflow_id (post req ''workflow_id'')"
    and "resp = (if int_param (post req ''workflow_id'') = None then Raised ValueError
                 else ErrorPage MsgWorkflowIdEmpty)"
  shows "(has_perm (req_user req) ''sql.sql_review'' \<longrightarrow>
            passed e req w = (resp, w) \<and> alter_run_date e req w = (resp, w))
     \<and> (has_perm (req_user req) ''sql.sql_execute''
          \<or> has_perm (req_user req) ''sql.sql_execute_for_resource_group'' \<longrightarrow>
            execute e req w = (resp, w))
     \<and> cancel e req w = (resp, w)
     \<and> ((has_perm (req_user req) ''sql.sql_execute''
          \<or> has_perm (req_user req) ''sql.sql_execute_for_resource_group'')
          \<and> post req ''workflow_id'' = None \<longrightarrow>
            timing_task e req w = (ErrorPage MsgTimeEmpty, w))"
  using assms
  by (auto simp: bad_workflow_id_def passed_def alter_run_date_def execute_def cancel_def
        timing_task_def Let_def split: option.splits)

theorem bad_workflow_id_rejected_witness:
  "passed (env_of gateway_direct) (form alice [(''workflow_id'', ''abc'')])
      (world7 ''workflow_manreviewing'') = (Raised ValueError, world7 ''workflow_manreviewing'')
   \<and> execute (env_of gateway_direct) (form alice [(''workflow_id'', ''abc'')])
      (world7 ''workflow_manreviewing'') = (Raised ValueError, world7 ''workflow_manreviewing'')
   \<and> cancel (env_of gateway_direct) (form alice [])
      (world7 ''workflow_manreviewing'') = (ErrorPage MsgWorkflowIdEmpty, world7 ''workflow_manreviewing'')
   \<and> alter_run_date (env_of gateway_direct) (form alice [])
      (world7 ''workflow_manreviewing'') = (ErrorPage MsgWorkflowIdEmpty, world7 ''workflow_manreviewing'')
   \<and> timing_task (env_of gateway_direct) (form alice [])
      (world7 ''workflow_manreviewing'') = (ErrorPage MsgTimeEmpty, world7 ''workflow_manreviewing'')
   \<and> cancel (env_of gateway_direct)
        (form bob [(''workflow_id'', '' 0 ''), (''cancel_remark'', ''stop'')])
        (world7 ''workflow_review_pass'')
        = (ErrorPage MsgWorkflowIdEmpty, world7 ''workflow_review_pass'')
   \<and> cancel (env_of gateway_direct)
        (form bob [(''workflow_id'', [CHR 0x1F, CHR ''0'']), (''cancel_remark'', ''stop'')])
        (world7 ''workflow_review_pass'') = (Raised ValueError, world7 ''workflow_review_pass'')
   \<and> cancel (env_of gateway_direct)
        (form bob [(''workflow_id'', [CHR 0x1F, CHR ''7'']), (''cancel_remark'', ''stop'')])
        (world7 ''workflow_review_pass'') = (Raised ValueError, world7 ''workflow_review_pass'')"
  using bad_workflow_id_rejected [where e = "env_of gateway_direct"
          and req = "form bob [(''workflow_id'', '' 0 ''), (''cancel_remark'', ''stop'')]"
          and w = "world7 ''workflow_review_pass''" and resp = "ErrorPage MsgWorkflowIdEmpty"]
        bad_workflow_id_rejected [where e = "env_of gateway_direct"
          and req = "form bob [(''workflow_id'', [CHR 0x1F, CHR ''0'']),
                               (''cancel_remark'', ''stop'')]"
          and w = "world7 ''workflow_review_pass''" and resp = "Raised ValueError"]
        bad_workflow_id_rejected [where e = "env_of gateway_direct"
          and req = "form bob [(''workflow_id'', [CHR 0x1F, CHR ''7'']),
                               (''cancel_remark'', ''stop'')]"
          and w = "world7 ''workflow_review_pass''" and resp = "Raised ValueError"]
        bad_workflow_id_rejected [where req = "form alice [(''workflow_id'', ''abc'')]"
          and e = "env_of gateway_direct" and w = "world7 ''workflow_manreviewing''"
          and resp = "Raised ValueError"]
        bad_workflow_id_rejected [where req = "form alice []"
          and e = "env_of gateway_direct" and w = "world7 ''workflow_manreviewing''"
          and resp = "ErrorPage MsgWorkflowIdEmpty"]
  by (simp add: installation_defs bad_workflow_id_def py_int_abc py_int_separator
        py_int_padded_0)

text \<open>
  C8, as stated, fails: it claims that every mutating endpoint rejects a bad
  \<open>workflow_id\<close> before any guard runs. Schedule does not look at the id
  before its guard on the time: with the id \<open>abc\<close> the answer is the message
  about the time for a past \<open>run_date\<close>, and the \<open>ValueError\<close> of the lookup
  of the row for a future one. Execute checks the permission of the user
  before it reads the id.
\<close>

theorem workflow_id_not_checked_first:
  "bad_workflow_id (Some ''abc'')
   \<and> timing_task (env_of gateway_direct)
        (form bob [(''workflow_id'', ''abc''), (''run_date'', ''2020-01-01 00:00'')])
        (world7 ''workflow_review_pass'') = (ErrorPage MsgTimeBeforeNow, world7 ''workflow_review_pass'')
   \<and> timing_task (env_of gateway_direct)
        (form bob [(''workflow_id'', ''abc''), (''run_date'', ''2030-01-01 10:00'')])
        (world7 ''workflow_review_pass'') = (Raised ValueError, world7 ''workflow_review_pass'')
   \<and> execute (env_of gateway_direct) (form carol []) (world7 ''workflow_review_pass'')
        = (Raised PermissionDenied, world7 ''workflow_review_pass'')"
  by (simp add: installation_defs bad_workflow_id_def py_int_abc timing_task_def
        timing_task_checked_def objects_get_str_def execute_def now_text Let_def)

section \<open>Schedule\<close>

text \<open>
  Zero-padded numbers compare as texts the way they compare as numbers, so two
  times written as \<open>%Y-%m-%d %H:%M\<close> compare as texts the way they compare
  as times.
\<close>

lemma of_char_digit_char: "d < 10 \<Longrightarrow> of_char (digit_char d) = (48 + d :: nat)"
proof -
  assume "d < 10"
  then have "d = 0 \<or> d = 1 \<or> d = 2 \<or> d = 3 \<or> d = 4 \<or> d = 5 \<or> d = 6 \<or> d = 7 \<or> d = 8 \<or> d = 9"
    by arith
  then show ?thesis
    by (elim disjE) (simp_all add: digit_char_def)
qed


lemma digit_char_less: "a < 10 \<Longrightarrow> b < 10 \<Longrightarrow> digit_char a < digit_char b \<longleftrightarrow> a < b"
  unfolding less_char_def by (simp add: of_char_digit_char)


lemma str_nat_1: "n < 10 \<Longrightarrow> str_nat n = [digit_char n]"
  by (subst str_nat.simps) simp


lemma digit_char_eq: "a < 10 \<Longrightarrow> b < 10 \<Longrightarrow> digit_char a = digit_char b \<longleftrightarrow> a = b"
proof
  assume a: "a < 10" and b: "b < 10" and e: "digit_char a = digit_char b"
  have "(48 + a :: nat) = of_char (digit_char a)"
    using a by (simp add: of_char_digit_char)
  also have "\<dots> = of_char (digit_char b)"
    using e by simp
  also have "\<dots> = 48 + b"
    using b by (simp add: of_char_digit_char)
  finally show "a = b" by simp
qed simp

lemma str_nat_2: "10 \<le> n \<Longrightarrow> n < 100 \<Longrightarrow> str_nat n = [digit_char (n div 10), digit_char (n mod 10)]"
  by (subst str_nat.simps) (simp add: str_nat_1)

lemma str_nat_3:
  assumes "100 \<le> n" "n < 1000"
  shows "str_nat n = [digit_char (n div 100), digit_char (n div 10 mod 10), digit_char (n mod 10)]"
proof -
  have "n div 10 div 10 = n div 100"
    by (simp add: div_mult2_eq [symmetric])
  then show ?thesis
    using assms by (subst str_nat.simps) (simp add: str_nat_2)
qed

lemma str_nat_4:
  assumes "1000 \<le> n" "n < 10000"
  shows "str_nat n = [digit_char (n div 1000), digit_char (n div 100 mod 10),
                      digit_char (n div 10 mod 10), digit_char (n mod 10)]"
proof -
  have "n div 10 div 100 = n div 1000" "n div 10 div 10 = n div 100"
    by (simp_all add: div_mult2_eq [symmetric])
  then show ?thesis
    using assms by (subst str_nat.simps) (simp add: str_nat_3)
qed

lemma digit_char_0: "digit_char 0 = CHR ''0''"
  by (simp add: digit_char_def)

lemma pad2_digits: "n < 100 \<Longrightarrow> pad2 n = [digit_char (n div 10), digit_char (n mod 10)]"
  by (cases "n < 10") (simp_all add: pad2_def str_nat_1 str_nat_2 digit_char_0)

lemma replicate_upto_3:
  "replicate 3 c = [c, c, c]" "replicate 2 c = [c, c]" "replicate 1 c = [c]"
  by (simp_all add: numeral_3_eq_3 numeral_2_eq_2)

lemma pad4_digits:
  assumes "n < 10000"
  shows "pad4 n = [digit_char (n div 1000), digit_char (n div 100 mod 10),
                   digit_char (n div 10 mod 10), digit_char (n mod 10)]"
proof -
  consider "n < 10" | "10 \<le> n" "n < 100" | "100 \<le> n" "n < 1000" | "1000 \<le> n"
    by linarith
  then show ?thesis
  proof cases
    case 1
    then show ?thesis by (simp add: pad4_def str_nat_1 digit_char_0 replicate_upto_3)
  next
    case 2
    then show ?thesis by (simp add: pad4_def str_nat_2 digit_char_0 replicate_upto_3)
  next
    case 3
    then show ?thesis by (simp add: pad4_def str_nat_3 digit_char_0 replicate_upto_3)
  next
    case 4
    then show ?thesis using assms by (simp add: pad4_def str_nat_4)
  qed
qed

lemma lex_le_same_length:
  "length xs = length ys \<Longrightarrow> xs @ u \<le> ys @ v \<longleftrightarrow> xs < ys \<or> xs = ys \<and> u \<le> v"
  for xs :: "'a::linorder list"
  by (induction xs ys rule: list_induct2) auto



lemma lex_less_same_length:
  "length xs = length ys \<Longrightarrow> xs @ u < ys @ v \<longleftrightarrow> xs < ys \<or> xs = ys \<and> u < v"
  for xs :: "'a::linorder list"
  by (induction xs ys rule: list_induct2) auto

lemma digits_less_10:
  "ra < (10::nat) \<Longrightarrow> rb < 10 \<Longrightarrow>
     (qa < qb \<or> qa = qb \<and> ra < rb) \<longleftrightarrow> 10 * qa + ra < 10 * qb + rb"
  by auto

lemma digits_less_100:
  "ra < (100::nat) \<Longrightarrow> rb < 100 \<Longrightarrow>
     (qa < qb \<or> qa = qb \<and> ra < rb) \<longleftrightarrow> 100 * qa + ra < 100 * qb + rb"
  by auto

lemma div_mod_eq_iff:
  "0 < k \<Longrightarrow> (a div k = b div k \<and> a mod k = b mod k) \<longleftrightarrow> a = b" for a b k :: nat
proof
  assume "a div k = b div k \<and> a mod k = b mod k"
  then have "k * (a div k) + a mod k = k * (b div k) + b mod k"
    by simp
  then show "a = b"
    by (simp only: mult_div_mod_eq)
qed simp

lemma pad2_less: "a < 100 \<Longrightarrow> b < 100 \<Longrightarrow> pad2 a < pad2 b \<longleftrightarrow> a < b"
proof -
  assume a: "a < 100" and b: "b < 100"
  then have d: "a div 10 < 10" "a mod 10 < 10" "b div 10 < 10" "b mod 10 < 10"
    by simp_all
  have "pad2 a < pad2 b \<longleftrightarrow>
          a div 10 < b div 10 \<or> a div 10 = b div 10 \<and> a mod 10 < b mod 10"
    using a b d by (simp add: pad2_digits digit_char_less digit_char_eq)
  also have "\<dots> \<longleftrightarrow> 10 * (a div 10) + a mod 10 < 10 * (b div 10) + b mod 10"
    by (rule digits_less_10 [OF d(2) d(4)])
  also have "\<dots> \<longleftrightarrow> a < b"
    by (simp only: mult_div_mod_eq)
  finally show ?thesis .
qed

lemma pad2_eq: "a < 100 \<Longrightarrow> b < 100 \<Longrightarrow> pad2 a = pad2 b \<longleftrightarrow> a = b"
proof -
  assume a: "a < 100" and b: "b < 100"
  then have d: "a div 10 < 10" "a mod 10 < 10" "b div 10 < 10" "b mod 10 < 10"
    by simp_all
  have "pad2 a = pad2 b \<longleftrightarrow> a div 10 = b div 10 \<and> a mod 10 = b mod 10"
    using a b d by (simp add: pad2_digits digit_char_eq)
  also have "\<dots> \<longleftrightarrow> a = b"
    by (rule div_mod_eq_iff) simp
  finally show ?thesis .
qed

lemma length_pad2: "n < 100 \<Longrightarrow> length (pad2 n) = 2"
  by (simp add: pad2_digits)

lemma length_pad4: "n < 10000 \<Longrightarrow> length (pad4 n) = 4"
  by (simp add: pad4_digits)


lemma mod_100_split: "n mod 100 = 10 * (n div 10 mod 10) + n mod 10" for n :: nat
  using mod_mult2_eq [of n 10 10] by simp

lemma pad4_split:
  assumes "n < 10000"
  shows "pad4 n = pad2 (n div 100) @ pad2 (n mod 100)"
proof -
  have 1: "n div 100 div 10 = n div 1000"
    by (simp add: div_mult2_eq [symmetric])
  have 2: "n mod 100 div 10 = n div 10 mod 10"
    by (simp add: mod_100_split)
  have 3: "n mod 100 mod 10 = n mod 10"
    by (simp add: mod_100_split)
  have "n div 100 < 100"
    using assms by simp
  then show ?thesis
    using assms by (simp add: pad4_digits pad2_digits 1 2 3)
qed

lemma pad4_less: "a < 10000 \<Longrightarrow> b < 10000 \<Longrightarrow> pad4 a < pad4 b \<longleftrightarrow> a < b"
proof -
  assume a: "a < 10000" and b: "b < 10000"
  then have d: "a div 100 < 100" "a mod 100 < 100" "b div 100 < 100" "b mod 100 < 100"
    by simp_all
  have "pad4 a < pad4 b \<longleftrightarrow>
          a div 100 < b div 100 \<or> a div 100 = b div 100 \<and> a mod 100 < b mod 100"
    using d by (simp add: pad4_split a b lex_less_same_length length_pad2 pad2_less pad2_eq)
  also have "\<dots> \<longleftrightarrow> 100 * (a div 100) + a mod 100 < 100 * (b div 100) + b mod 100"
    by (rule digits_less_100 [OF d(2) d(4)])
  also have "\<dots> \<longleftrightarrow> a < b"
    by (simp only: mult_div_mod_eq)
  finally show ?thesis .
qed

lemma pad4_eq: "a < 10000 \<Longrightarrow> b < 10000 \<Longrightarrow> pad4 a = pad4 b \<longleftrightarrow> a = b"
proof -
  assume a: "a < 10000" and b: "b < 10000"
  then have d: "a div 100 < 100" "a mod 100 < 100" "b div 100 < 100" "b mod 100 < 100"
    by simp_all
  have "pad4 a = pad4 b \<longleftrightarrow> a div 100 = b div 100 \<and> a mod 100 = b mod 100"
    using d by (simp add: pad4_split a b length_pad2 pad2_eq)
  also have "\<dots> \<longleftrightarrow> a = b"
    by (rule div_mod_eq_iff) simp
  finally show ?thesis .
qed


lemma pad2_le: "a < 100 \<Longrightarrow> b < 100 \<Longrightarrow> pad2 a \<le> pad2 b \<longleftrightarrow> a \<le> b"
  by (auto simp: le_less pad2_less pad2_eq)

lemma minute_text_le:
  "fits_format t \<Longrightarrow> fits_format n \<Longrightarrow> strftime_ymdhm t \<le> strftime_ymdhm n \<longleftrightarrow> minute_le t n"
  by (simp add: strftime_ymdhm_def minute_le_def fits_format_def lex_le_same_length
        length_pad2 length_pad4 pad2_less pad2_eq pad2_le pad4_less pad4_eq)

lemma less_append_Cons: "xs < xs @ y # ys" for xs :: "'a::linorder list"
  by (induction xs) simp_all

lemma minute_text_less: "strftime_ymdhm d < strftime_ymdhms d"
  by (simp add: strftime_ymdhms_def less_append_Cons)

lemma timing_task_checked_malformed:
  "strptime_ymdhm rd = None \<Longrightarrow>
     snd (timing_task_checked e u wid rd w) = w
     \<and> (\<forall>s. fst (timing_task_checked e u wid rd w) \<noteq> Redirect s)"
  by (simp add: timing_task_checked_def split: sum.splits prod.splits)

text \<open>
  C4, as amended. With the permission to execute, schedule answers with a
  message, and changes nothing, when \<open>run_date\<close> is absent, and when
  \<open>run_date\<close> compares less, as text, than the current time written as
  \<open>%Y-%m-%d %H:%M:%S\<close>. The current time written to the minute is such a
  text, and so is every time not later than the current minute when it is
  written zero-padded as \<open>%Y-%m-%d %H:%M\<close>. A \<open>run_date\<close> that does not
  parse as \<open>%Y-%m-%d %H:%M\<close> never leads to a redirect or to a change: it
  is stopped by a message or by an exception.
\<close>

theorem timing_task_rejects_run_date:
  assumes "has_perm (req_user req) ''sql.sql_execute''
           \<or> has_perm (req_user req) ''sql.sql_execute_for_resource_group''"
    and "msg = (if post req ''workflow_id'' = None then MsgTimeEmpty else MsgTimeBeforeNow)"
  shows "(post req ''run_date'' = None \<longrightarrow> timing_task e req w = (ErrorPage MsgTimeEmpty, w))
     \<and> (post req ''run_date'' = Some rd \<and>
          (rd < strftime_ymdhms (now e) \<or> rd = strftime_ymdhm (now e)) \<longrightarrow>
          timing_task e req w = (ErrorPage msg, w))
     \<and> (post req ''run_date'' = Some (strftime_ymdhm t) \<and> fits_format t \<and>
          fits_format (now e) \<and> minute_le t (now e) \<longrightarrow>
          timing_task e req w = (ErrorPage msg, w))
     \<and> (post req ''run_date'' = Some rd \<and> strptime_ymdhm rd = None \<longrightarrow>
          snd (timing_task e req w) = w \<and> (\<forall>s. fst (timing_task e req w) \<noteq> Redirect s))"
proof (intro conjI impI)
  assume "post req ''run_date'' = None"
  then show "timing_task e req w = (ErrorPage MsgTimeEmpty, w)"
    using assms by (simp add: timing_task_def Let_def)
next
  assume "post req ''run_date'' = Some rd \<and>
          (rd < strftime_ymdhms (now e) \<or> rd = strftime_ymdhm (now e))"
  then show "timing_task e req w = (ErrorPage msg, w)"
    using assms minute_text_less [of "now e"]
    by (auto simp: timing_task_def Let_def split: option.splits)
next
  assume h: "post req ''run_date'' = Some (strftime_ymdhm t) \<and> fits_format t \<and>
          fits_format (now e) \<and> minute_le t (now e)"
  then have "strftime_ymdhm t \<le> strftime_ymdhm (now e)"
    by (simp add: minute_text_le)
  then have "strftime_ymdhm t < strftime_ymdhms (now e)"
    using minute_text_less [of "now e"] by (rule le_less_trans)
  then show "timing_task e req w = (ErrorPage msg, w)"
    using assms h by (auto simp: timing_task_def Let_def split: option.splits)
next
  assume "post req ''run_date'' = Some rd \<and> strptime_ymdhm rd = None"
  then show "snd (timing_task e req w) = w" and "\<forall>s. fst (timing_task e req w) \<noteq> Redirect s"
    using assms
    by (auto simp: timing_task_def Let_def timing_task_checked_malformed split: option.splits)
qed

theorem timing_task_rejects_run_date_witness:
  "timing_task (env_of gateway_direct) (form bob [(''workflow_id'', ''7'')])
      (world7 ''workflow_review_pass'') = (ErrorPage MsgTimeEmpty, world7 ''workflow_review_pass'')
   \<and> timing_task (env_of gateway_direct)
        (form bob [(''workflow_id'', ''7''), (''run_date'', ''2024-01-01 10:00'')])
        (world7 ''workflow_review_pass'') = (ErrorPage MsgTimeBeforeNow, world7 ''workflow_review_pass'')
   \<and> timing_task (env_of gateway_direct)
        (form bob [(''workflow_id'', ''7''), (''run_date'', ''2023-12-31 23:59'')])
        (world7 ''workflow_review_pass'') = (ErrorPage MsgTimeBeforeNow, world7 ''workflow_review_pass'')
   \<and> snd (timing_task (env_of gateway_direct)
        (form bob [(''workflow_id'', ''7''), (''run_date'', ''9999'')])
        (world7 ''workflow_review_pass'')) = world7 ''workflow_review_pass''"
  using timing_task_rejects_run_date [where req = "form bob [(''workflow_id'', ''7'')]"
          and e = "env_of gateway_direct" and w = "world7 ''workflow_review_pass''"
          and msg = MsgTimeBeforeNow]
        timing_task_rejects_run_date [where rd = "''2024-01-01 10:00''"
          and req = "form bob [(''workflow_id'', ''7''), (''run_date'', ''2024-01-01 10:00'')]"
          and e = "env_of gateway_direct" and w = "world7 ''workflow_review_pass''"
          and msg = MsgTimeBeforeNow]
        timing_task_rejects_run_date [where t = t_2023
          and req = "form bob [(''workflow_id'', ''7''), (''run_date'', ''2023-12-31 23:59'')]"
          and e = "env_of gateway_direct" and w = "world7 ''workflow_review_pass''"
          and msg = MsgTimeBeforeNow]
        timing_task_rejects_run_date [where rd = "''9999''"
          and req = "form bob [(''workflow_id'', ''7''), (''run_date'', ''9999'')]"
          and e = "env_of gateway_direct" and w = "world7 ''workflow_review_pass''"
          and msg = MsgTimeBeforeNow]
  by (simp add: installation_defs now_text now_minute_text text_2023 strptime_9999
        times_in_order)

text \<open>
  C4, as stated, fails: it claims a message for every \<open>run_date\<close> that is
  malformed or not later than the current time. The text \<open>9999\<close> does not
  compare less than the current time, so it reaches the parser, whose
  \<open>ValueError\<close> leaves the view. And at 10:00:00 on 2024-01-01 the text
  \<open>2024-1-1 9:05\<close> does not compare less either, parses, and is scheduled
  for 09:05 of that day.
\<close>

theorem timing_task_run_date_counterexample:
  "timing_task (env_of gateway_direct)
      (form bob [(''workflow_id'', ''7''), (''run_date'', ''9999'')])
      (world7 ''workflow_review_pass'') = (Raised ValueError, world7 ''workflow_review_pass'')
   \<and> strptime_ymdhm ''2024-1-1 9:05'' =
        Some \<lparr>dt_year = 2024, dt_month = 1, dt_day = 1, dt_hour = 9, dt_minute = 5, dt_second = 0\<rparr>
   \<and> strftime_ymdhms (now (env_of gateway_direct)) = ''2024-01-01 10:00:00''
   \<and> fst (timing_task (env_of gateway_direct)
        (form bob [(''workflow_id'', ''7''), (''run_date'', ''2024-1-1 9:05'')])
        (world7 ''workflow_review_pass'')) = Redirect ''7''
   \<and> schedules (db (snd (timing_task (env_of gateway_direct)
        (form bob [(''workflow_id'', ''7''), (''run_date'', ''2024-1-1 9:05'')])
        (world7 ''workflow_review_pass'')))) ''sqlreview-timing-7'' =
        Some \<lparr>next_run = \<lparr>dt_year = 2024, dt_month = 1, dt_day = 1, dt_hour = 9, dt_minute = 5,
                           dt_second = 0\<rparr>, payload = ''7''\<rparr>"
  by (simp add: installation_defs now_text strptime_9999 strptime_unpadded timing_task_def
        timing_task_checked_def timing_task_try_def timing_task_block_def objects_get_str_def
        call_defs Let_def)

end
